theory Spec2Isabelle
  imports Complex_Main "HOL-Library.Log_Nat" "HOL-Library.Sublist"
begin

section \<open>Python values used by the program\<close>

subsection \<open>64-bit floats\<close>

text \<open>
  Coordinates and distances are Python floats (IEEE 754 binary64; the table declares
  \<^verbatim>\<open>x REAL NOT NULL\<close>, the functions are annotated \<^verbatim>\<open>float\<close>). A float is
  modelled by the rational number it denotes, or by one of the three special values.
  The two zeros are identified: Python's \<^verbatim>\<open>==\<close> does not tell them apart and the program
  never divides by a variable.
\<close>

datatype pyfloat = Fin rat | PInf | NInf | NaN

definition pow2 :: "int \<Rightarrow> rat" where
  "pow2 k = (if 0 \<le> k then 2 ^ nat k else 1 / 2 ^ nat (- k))"

text \<open>The binary exponent of a positive rational: the \<open>e\<close> with \<open>2^e \<le> q < 2^(e+1)\<close>.\<close>

definition ilog2 :: "rat \<Rightarrow> int" where
  "ilog2 q = (let n = fst (quotient_of q); d = snd (quotient_of q);
                  e = bitlen n - bitlen d
              in if pow2 e \<le> q then e else e - 1)"

definition round_half_even :: "rat \<Rightarrow> int" where
  "round_half_even q = (let f = \<lfloor>q\<rfloor>; r = q - of_int f
     in if r < 1 / 2 then f else if 1 / 2 < r then f + 1
        else if even f then f else f + 1)"

text \<open>
  Rounding of an exact result to binary64, to nearest with ties to even: 53 significant
  bits, gradual underflow below \<open>2^-1022\<close>, and an infinity once the rounded value
  would reach \<open>2^1024\<close>.
\<close>

definition round_double :: "rat \<Rightarrow> pyfloat" where
  "round_double q = (if q = 0 then Fin 0 else
     let e = max (ilog2 \<bar>q\<bar>) (- 1022); u = pow2 (e - 52);
         r = of_int (round_half_even (q / u)) * u
     in if pow2 1024 \<le> \<bar>r\<bar> then (if 0 < q then PInf else NInf) else Fin r)"

text \<open>The integer square root, two bits of the argument for each bit of the result.\<close>

function isqrt :: "int \<Rightarrow> int" where
  "isqrt n = (if n < 2 then (if n < 1 then 0 else 1) else
     let s = 2 * isqrt (n div 4) in if (s + 1) * (s + 1) \<le> n then s + 1 else s)"
  by pat_completeness auto
termination
  by (relation "measure nat") auto

declare isqrt.simps [simp del]

text \<open>
  A rational that rounds as the square root of \<open>q\<close> does: the root is computed to more
  than 60 bits, and a root that is not exact is replaced by a point strictly between the
  two neighbouring 60-bit values, which no binary64 value or rounding boundary separates
  from it.
\<close>

definition sqrt_rat :: "rat \<Rightarrow> rat" where
  "sqrt_rat q = (let k = (if 120 \<le> ilog2 q then 0 else (121 - ilog2 q) div 2);
        m = \<lfloor>q * pow2 (2 * k)\<rfloor>; s = isqrt m
     in if of_int (s * s) = q * pow2 (2 * k) then of_int s / pow2 k
        else (of_int s + 1 / 2) / pow2 k)"

subsection \<open>Exceptions\<close>

text \<open>
  The exceptions that the program raises, catches or lets through, each with the text
  that \<^verbatim>\<open>str(e)\<close> gives. \<open>HTTPError\<close> carries the status code of its response;
  \<open>RequestsJSONDecodeError\<close> is the decoding error of the \<^verbatim>\<open>requests\<close> library,
  which is both a \<^verbatim>\<open>RequestException\<close> and a \<^verbatim>\<open>ValueError\<close>.
\<close>

datatype exc =
    Timeout string
  | ConnectionError string
  | HTTPError int string
  | RequestsJSONDecodeError string
  | ValueError string
  | KeyError string
  | TypeError string
  | RuntimeError string
  | OverflowError string
  | ZeroDivisionError string
  | IntegrityError string

fun str_exc :: "exc \<Rightarrow> string" where
  "str_exc (Timeout m) = m"
| "str_exc (ConnectionError m) = m"
| "str_exc (HTTPError st m) = m"
| "str_exc (RequestsJSONDecodeError m) = m"
| "str_exc (ValueError m) = m"
| "str_exc (KeyError k) = [CHR 0x27] @ k @ [CHR 0x27]"
| "str_exc (TypeError m) = m"
| "str_exc (RuntimeError m) = m"
| "str_exc (OverflowError m) = m"
| "str_exc (ZeroDivisionError m) = m"
| "str_exc (IntegrityError m) = m"

subsection \<open>Float operations\<close>

text \<open>Python's \<^verbatim>\<open>a - b\<close> and \<^verbatim>\<open>a + b\<close> on floats; an overflow gives an infinity.\<close>

fun fsub :: "pyfloat \<Rightarrow> pyfloat \<Rightarrow> pyfloat" where
  "fsub NaN b = NaN"
| "fsub a NaN = NaN"
| "fsub (Fin a) (Fin b) = round_double (a - b)"
| "fsub (Fin a) PInf = NInf"
| "fsub (Fin a) NInf = PInf"
| "fsub PInf (Fin b) = PInf"
| "fsub NInf (Fin b) = NInf"
| "fsub PInf PInf = NaN"
| "fsub NInf NInf = NaN"
| "fsub PInf NInf = PInf"
| "fsub NInf PInf = NInf"

fun fadd :: "pyfloat \<Rightarrow> pyfloat \<Rightarrow> pyfloat" where
  "fadd NaN b = NaN"
| "fadd a NaN = NaN"
| "fadd (Fin a) (Fin b) = round_double (a + b)"
| "fadd (Fin a) PInf = PInf"
| "fadd (Fin a) NInf = NInf"
| "fadd PInf (Fin b) = PInf"
| "fadd NInf (Fin b) = NInf"
| "fadd PInf PInf = PInf"
| "fadd NInf NInf = NInf"
| "fadd PInf NInf = NaN"
| "fadd NInf PInf = NaN"

text \<open>
  \<^verbatim>\<open>a ** 2\<close> on a float: the rounded square; a finite base whose square overflows
  raises OverflowError, where the other operations return an infinity.
\<close>

fun fsquare :: "pyfloat \<Rightarrow> exc + pyfloat" where
  "fsquare NaN = Inr NaN"
| "fsquare PInf = Inr PInf"
| "fsquare NInf = Inr PInf"
| "fsquare (Fin a) = (case round_double (a * a) of
       Fin r \<Rightarrow> Inr (Fin r)
     | _ \<Rightarrow> Inl (OverflowError ''(34, 'Numerical result out of range')''))"

text \<open>\<^verbatim>\<open>math.sqrt\<close>: correctly rounded; a negative argument raises ValueError.\<close>

fun fsqrt :: "pyfloat \<Rightarrow> exc + pyfloat" where
  "fsqrt NaN = Inr NaN"
| "fsqrt PInf = Inr PInf"
| "fsqrt NInf = Inl (ValueError ''math domain error'')"
| "fsqrt (Fin a) = (if a < 0 then Inl (ValueError ''math domain error'')
                   else if a = 0 then Inr (Fin 0)
                   else Inr (round_double (sqrt_rat a)))"

text \<open>\<^verbatim>\<open>a / b\<close> on floats: a zero divisor raises ZeroDivisionError.\<close>

fun fdiv :: "pyfloat \<Rightarrow> pyfloat \<Rightarrow> exc + pyfloat" where
  "fdiv a (Fin b) = (if b = 0 then Inl (ZeroDivisionError ''float division by zero'')
     else case a of
         Fin q \<Rightarrow> Inr (round_double (q / b))
       | PInf \<Rightarrow> Inr (if 0 < b then PInf else NInf)
       | NInf \<Rightarrow> Inr (if 0 < b then NInf else PInf)
       | NaN \<Rightarrow> Inr NaN)"
| "fdiv a NaN = Inr NaN"
| "fdiv (Fin q) b = Inr (Fin 0)"
| "fdiv a b = Inr NaN"

subsection \<open>Strings\<close>

text \<open>
  \<^verbatim>\<open>needle in hay\<close> on strings is the test for a contiguous sublist.
  \<^verbatim>\<open>s.lower()\<close> is modelled on ASCII letters, the only ones in the texts that the
  program itself builds; other bytes are left as they are.
\<close>

definition py_in :: "string \<Rightarrow> string \<Rightarrow> bool" where
  "py_in needle hay = sublist needle hay"

definition lower_char :: "char \<Rightarrow> char" where
  "lower_char c =
     (case map_of (zip ''ABCDEFGHIJKLMNOPQRSTUVWXYZ'' ''abcdefghijklmnopqrstuvwxyz'') c of
        Some l \<Rightarrow> l
      | None \<Rightarrow> c)"

definition lower :: "string \<Rightarrow> string" where
  "lower s = map lower_char s"

text \<open>\<^verbatim>\<open>str(n)\<close> for an integer: its decimal digits, with a sign when it is negative.\<close>

function digits10 :: "nat \<Rightarrow> string" where
  "digits10 n = (if n < 10 then [''0123456789'' ! n]
                 else digits10 (n div 10) @ [''0123456789'' ! (n mod 10)])"
  by pat_completeness auto
termination
  by (relation "measure id") auto

declare digits10.simps [simp del]

definition str_int :: "int \<Rightarrow> string" where
  "str_int i = (if i < 0 then CHR ''-'' # digits10 (nat (- i)) else digits10 (nat i))"

text \<open>The exception classes that the \<^verbatim>\<open>except\<close> clauses of the program test for.\<close>

fun is_HTTPError :: "exc \<Rightarrow> bool" where
  "is_HTTPError (HTTPError st m) = True"
| "is_HTTPError e = False"

fun is_RequestException :: "exc \<Rightarrow> bool" where
  "is_RequestException (Timeout m) = True"
| "is_RequestException (ConnectionError m) = True"
| "is_RequestException (HTTPError st m) = True"
| "is_RequestException (RequestsJSONDecodeError m) = True"
| "is_RequestException e = False"

fun is_KeyError :: "exc \<Rightarrow> bool" where
  "is_KeyError (KeyError k) = True"
| "is_KeyError e = False"

fun is_ValueError :: "exc \<Rightarrow> bool" where
  "is_ValueError (ValueError m) = True"
| "is_ValueError (RequestsJSONDecodeError m) = True"
| "is_ValueError e = False"

fun is_RuntimeError :: "exc \<Rightarrow> bool" where
  "is_RuntimeError (RuntimeError m) = True"
| "is_RuntimeError e = False"

section \<open>config.py\<close>

definition MIN_SYSTEM_ID :: int where
  "MIN_SYSTEM_ID = 30000000"

definition MAX_SYSTEM_ID :: int where
  "MAX_SYSTEM_ID = 31000000"

definition LIGHTYEAR_IN_METERS :: pyfloat where
  "LIGHTYEAR_IN_METERS = Fin 9460000000000000"

section \<open>calculator.py\<close>

text \<open>
  The function reads the keys \<^verbatim>\<open>x\<close>, \<^verbatim>\<open>y\<close>, \<^verbatim>\<open>z\<close> of its two dictionaries and
  ignores every other key, so it is defined on any extension of the record of the
  three coordinates (fields \<open>pos_x\<close>, \<open>pos_y\<close>, \<open>pos_z\<close>).
\<close>

record coords =
  pos_x :: pyfloat
  pos_y :: pyfloat
  pos_z :: pyfloat

record distance =
  distance_meters :: pyfloat
  distance_lightyears :: pyfloat

definition calculate_distance ::
  "'a coords_scheme \<Rightarrow> 'b coords_scheme \<Rightarrow> exc + distance" where
  "calculate_distance system1 system2 =
     (case fsquare (fsub (pos_x system2) (pos_x system1)) of Inl e \<Rightarrow> Inl e | Inr dx \<Rightarrow>
      case fsquare (fsub (pos_y system2) (pos_y system1)) of Inl e \<Rightarrow> Inl e | Inr dy \<Rightarrow>
      let dxy = fadd dx dy in
      case fsquare (fsub (pos_z system2) (pos_z system1)) of Inl e \<Rightarrow> Inl e | Inr dz \<Rightarrow>
      case fsqrt (fadd dxy dz) of Inl e \<Rightarrow> Inl e | Inr distance_m \<Rightarrow>
      case fdiv distance_m LIGHTYEAR_IN_METERS of Inl e \<Rightarrow> Inl e | Inr distance_ly \<Rightarrow>
        Inr \<lparr>distance_meters = distance_m, distance_lightyears = distance_ly\<rparr>)"

definition point :: "rat \<Rightarrow> rat \<Rightarrow> rat \<Rightarrow> coords" where
  "point a b c = \<lparr>pos_x = Fin a, pos_y = Fin b, pos_z = Fin c\<rparr>"

section \<open>esi_client.py\<close>

text \<open>
  What the network answers to one request. Either \<^verbatim>\<open>requests.get\<close> itself raises
  (a timeout, a connection failure), or it returns a response: a status code, the reason
  phrase of the status line, and what \<^verbatim>\<open>response.json()\<close> then does, which is to
  raise a decoding error or to return the decoded value. The decoded value is a JSON
  object or a value of another kind (null, a boolean, a number, a string, an array); so
  is the value under the key \<^verbatim>\<open>position\<close>. An object is modelled by the keys that the
  client reads: a key that the object lacks is \<open>None\<close>, and a leaf that is present
  (\<^verbatim>\<open>system_id\<close>, \<^verbatim>\<open>name\<close>, \<^verbatim>\<open>x\<close>, \<^verbatim>\<open>y\<close>, \<^verbatim>\<open>z\<close>) holds a value of
  the type the remote schema gives it.
\<close>

datatype non_object = JsonNull | JsonBool | JsonInt | JsonFloat | JsonString | JsonArray

record position_json =
  json_x :: "pyfloat option"
  json_y :: "pyfloat option"
  json_z :: "pyfloat option"

datatype position_value = PositionObject position_json | PositionOther non_object

record system_json =
  json_system_id :: "int option"
  json_name :: "string option"
  json_position :: "position_value option"

datatype json_payload = PayloadObject system_json | PayloadOther non_object

datatype json_result = JsonRaises exc | JsonData json_payload

datatype upstream = GetRaises exc | Response int string json_result

text \<open>The dictionary of five entries that the client returns.\<close>

record esi_data = coords +
  system_id :: int
  name :: string

definition ESI_BASE_URL :: string where
  "ESI_BASE_URL = ''https://esi.evetech.net/latest''"

text \<open>
  \<^verbatim>\<open>response.raise_for_status()\<close> of the \<^verbatim>\<open>requests\<close> library: a status from
  400 to 599 raises HTTPError, every other status returns.
\<close>

definition raise_for_status :: "string \<Rightarrow> int \<Rightarrow> string \<Rightarrow> exc + unit" where
  "raise_for_status url st reason =
     (if 400 \<le> st \<and> st < 500
        then Inl (HTTPError st (str_int st @ '' Client Error: '' @ reason @ '' for url: '' @ url))
      else if 500 \<le> st \<and> st < 600
        then Inl (HTTPError st (str_int st @ '' Server Error: '' @ reason @ '' for url: '' @ url))
      else Inr ())"

text \<open>
  \<^verbatim>\<open>v["key"]\<close> on a value that is not a dictionary raises TypeError; the text is the one
  of the Python interpreter for the kind of value.
\<close>

fun subscript_non_object :: "non_object \<Rightarrow> exc" where
  "subscript_non_object JsonNull =
     TypeError ([CHR 0x27] @ ''NoneType'' @ [CHR 0x27] @ '' object is not subscriptable'')"
| "subscript_non_object JsonBool =
     TypeError ([CHR 0x27] @ ''bool'' @ [CHR 0x27] @ '' object is not subscriptable'')"
| "subscript_non_object JsonInt =
     TypeError ([CHR 0x27] @ ''int'' @ [CHR 0x27] @ '' object is not subscriptable'')"
| "subscript_non_object JsonFloat =
     TypeError ([CHR 0x27] @ ''float'' @ [CHR 0x27] @ '' object is not subscriptable'')"
| "subscript_non_object JsonString =
     TypeError (''string indices must be integers, not '' @ [CHR 0x27] @ ''str'' @ [CHR 0x27])"
| "subscript_non_object JsonArray =
     TypeError ''list indices must be integers or slices, not str''"

text \<open>
  The dictionary display of the client: the subscriptions in the order in which Python
  evaluates them, each raising KeyError for a key that a dictionary lacks and TypeError on
  a value that is not a dictionary.
\<close>

definition extract_fields :: "json_payload \<Rightarrow> exc + esi_data" where
  "extract_fields payload =
     (case payload of
        PayloadOther v \<Rightarrow> Inl (subscript_non_object v)
      | PayloadObject data \<Rightarrow>
     (case json_system_id data of None \<Rightarrow> Inl (KeyError ''system_id'') | Some i \<Rightarrow>
      case json_name data of None \<Rightarrow> Inl (KeyError ''name'') | Some n \<Rightarrow>
      case json_position data of
        None \<Rightarrow> Inl (KeyError ''position'')
      | Some (PositionOther v) \<Rightarrow> Inl (subscript_non_object v)
      | Some (PositionObject p) \<Rightarrow>
     (case json_x p of None \<Rightarrow> Inl (KeyError ''x'') | Some vx \<Rightarrow>
      case json_y p of None \<Rightarrow> Inl (KeyError ''y'') | Some vy \<Rightarrow>
      case json_z p of None \<Rightarrow> Inl (KeyError ''z'') | Some vz \<Rightarrow>
        Inr \<lparr>pos_x = vx, pos_y = vy, pos_z = vz, system_id = i, name = n\<rparr>)))"

text \<open>The body of the \<^verbatim>\<open>try\<close> statement of \<^verbatim>\<open>get_system_info\<close>.\<close>

definition try_get_system_info :: "int \<Rightarrow> upstream \<Rightarrow> exc + esi_data" where
  "try_get_system_info sid up =
     (case up of
        GetRaises e \<Rightarrow> Inl e
      | Response st reason js \<Rightarrow>
          (case raise_for_status (ESI_BASE_URL @ ''/universe/systems/'' @ str_int sid @ ''/'')
                  st reason of
             Inl e \<Rightarrow> Inl e
           | Inr u \<Rightarrow>
               (case js of
                  JsonRaises e \<Rightarrow> Inl e
                | JsonData payload \<Rightarrow> extract_fields payload)))"

text \<open>
  \<^verbatim>\<open>ESIClient.get_system_info\<close>: the \<^verbatim>\<open>try\<close> body, then the three
  \<^verbatim>\<open>except\<close> clauses in their order. An exception raised inside a clause leaves the
  statement; an exception that no clause matches passes through.
\<close>

definition get_system_info :: "int \<Rightarrow> upstream \<Rightarrow> exc + esi_data" where
  "get_system_info sid up =
     (case try_get_system_info sid up of
        Inr d \<Rightarrow> Inr d
      | Inl e \<Rightarrow>
          if is_HTTPError e then
            (case e of
               HTTPError st m \<Rightarrow>
                 if st = 404 then Inl (ValueError (''System ID '' @ str_int sid @ '' not found''))
                 else Inl e
             | _ \<Rightarrow> Inl e)
          else if is_RequestException e then
            Inl (RuntimeError (''Failed to fetch system data from ESI: '' @ str_exc e))
          else if is_KeyError e \<or> is_ValueError e then
            Inl (RuntimeError (''Invalid response format from ESI: '' @ str_exc e))
          else Inl e)"

section \<open>database.py\<close>

text \<open>
  The table \<^verbatim>\<open>systems\<close> is the list of its rows. A timestamp is a reading of the UTC
  clock in microseconds; the ISO texts that the program stores compare as these numbers
  do. The clock is read once by \<^verbatim>\<open>insert_system\<close> and once by
  \<^verbatim>\<open>update_system_timestamp\<close>; the reading is an argument of the model.
\<close>

type_synonym timestamp = nat

record system_row = esi_data +
  added :: timestamp
  last_update :: timestamp

type_synonym systems_table = "system_row list"

definition get_system :: "systems_table \<Rightarrow> int \<Rightarrow> system_row option" where
  "get_system tbl sid = find (\<lambda>row. system_id row = sid) tbl"

text \<open>
  \<^verbatim>\<open>insert_system\<close>. The INSERT statement fails, and leaves the table as it was, for
  an integer outside SQLite's 64 bits (the driver raises OverflowError), for a NaN
  coordinate (SQLite stores NaN as NULL, which the NOT NULL columns refuse) and for a
  key that the table already holds (the primary key).
\<close>

definition insert_system ::
  "timestamp \<Rightarrow> int \<Rightarrow> string \<Rightarrow> pyfloat \<Rightarrow> pyfloat \<Rightarrow> pyfloat \<Rightarrow> systems_table
     \<Rightarrow> exc + systems_table" where
  "insert_system now sid nm vx vy vz tbl =
     (if sid < - (2 ^ 63) \<or> 2 ^ 63 \<le> sid
        then Inl (OverflowError ''Python int too large to convert to SQLite INTEGER'')
      else if vx = NaN then Inl (IntegrityError ''NOT NULL constraint failed: systems.x'')
      else if vy = NaN then Inl (IntegrityError ''NOT NULL constraint failed: systems.y'')
      else if vz = NaN then Inl (IntegrityError ''NOT NULL constraint failed: systems.z'')
      else if get_system tbl sid \<noteq> None
        then Inl (IntegrityError ''UNIQUE constraint failed: systems.system_id'')
      else Inr (tbl @ [\<lparr>pos_x = vx, pos_y = vy, pos_z = vz, system_id = sid, name = nm,
                         added = now, last_update = now\<rparr>]))"

definition update_system_timestamp :: "timestamp \<Rightarrow> int \<Rightarrow> systems_table \<Rightarrow> systems_table" where
  "update_system_timestamp now sid tbl =
     map (\<lambda>row. if system_id row = sid then row\<lparr>last_update := now\<rparr> else row) tbl"

section \<open>app.py\<close>

text \<open>
  The state that the application works on: the table behind the global \<^verbatim>\<open>db\<close>, and
  the log of the requests that the global \<^verbatim>\<open>esi\<close> client has sent (the id of each).
  What one resolution takes from outside is its environment: the clock reading of the
  one statement that reads the clock, and the answer of the network to the one request
  it may send.
\<close>

record world =
  systems :: systems_table
  esi_requests :: "int list"

record env =
  utcnow :: timestamp
  upstream :: upstream

text \<open>
  \<^verbatim>\<open>validate_system_id\<close> is called on the result of \<^verbatim>\<open>int()\<close>, so its first
  test (that the argument is an integer) always passes; the range test remains.
\<close>

definition validate_system_id :: "int \<Rightarrow> bool \<times> string" where
  "validate_system_id sid =
     (if sid < MIN_SYSTEM_ID \<or> sid > MAX_SYSTEM_ID
        then (False, ''System ID must be between 30,000,000 and 31,000,000'')
      else (True, []))"

definition get_or_fetch_system :: "env \<Rightarrow> int \<Rightarrow> world \<Rightarrow> (exc + system_row) \<times> world" where
  "get_or_fetch_system ev sid w =
     (case get_system (systems w) sid of
        Some system_data \<Rightarrow>
          (Inr system_data,
           w\<lparr>systems := update_system_timestamp (utcnow ev) sid (systems w)\<rparr>)
      | None \<Rightarrow>
          (let w1 = w\<lparr>esi_requests := esi_requests w @ [sid]\<rparr> in
           case get_system_info sid (upstream ev) of
             Inl e \<Rightarrow> (Inl e, w1)
           | Inr d \<Rightarrow>
               (case insert_system (utcnow ev) (system_id d) (name d)
                       (pos_x d) (pos_y d) (pos_z d) (systems w1) of
                  Inl e \<Rightarrow> (Inl e, w1)
                | Inr tbl \<Rightarrow>
                    (let w2 = w1\<lparr>systems := tbl\<rparr> in
                     case get_system tbl sid of
                       None \<Rightarrow>
                         (Inl (RuntimeError (''Failed to retrieve system '' @ str_int sid
                                              @ '' after inserting'')), w2)
                     | Some db_record \<Rightarrow> (Inr db_record, w2)))))"

text \<open>
  The endpoint. A request parameter is absent, or \<^verbatim>\<open>int()\<close> refuses it, or it
  converts to an integer. The answer is a JSON body and a status code. The rate limiter
  that decorates the endpoint is outside the model.
\<close>

datatype param = Absent | Unconvertible | Converts int

datatype body =
    ErrorBody string
  | DistanceBody int string int string pyfloat pyfloat

type_synonym response = "body \<times> nat"

text \<open>The three \<^verbatim>\<open>except\<close> clauses of the endpoint, in their order.\<close>

definition endpoint_except :: "exc \<Rightarrow> response" where
  "endpoint_except e =
     (if is_ValueError e then
        (if py_in ''not found'' (lower (str_exc e))
           then (ErrorBody ''One or more system IDs not found in EVE Online universe'', 404)
         else (ErrorBody ''Invalid system data'', 400))
      else if is_RuntimeError e then
        (if py_in ''ESI'' (str_exc e) \<or> py_in ''fetch'' (lower (str_exc e))
           then (ErrorBody ''Unable to retrieve system information. Please try again later.'', 502)
         else (ErrorBody ''A service error occurred'', 500))
      else (ErrorBody ''An unexpected error occurred'', 500))"

definition calculate_distance_endpoint ::
  "env \<Rightarrow> env \<Rightarrow> param \<Rightarrow> param \<Rightarrow> world \<Rightarrow> response \<times> world" where
  "calculate_distance_endpoint ev1 ev2 p1 p2 w =
     (if p1 = Absent \<or> p2 = Absent
        then ((ErrorBody ''Both system_id_1 and system_id_2 are required'', 400), w)
      else case (p1, p2) of
        (Converts system_id_1, Converts system_id_2) \<Rightarrow>
          (if \<not> fst (validate_system_id system_id_1)
             then ((ErrorBody (''system_id_1: '' @ snd (validate_system_id system_id_1)), 400), w)
           else if \<not> fst (validate_system_id system_id_2)
             then ((ErrorBody (''system_id_2: '' @ snd (validate_system_id system_id_2)), 400), w)
           else
             (case get_or_fetch_system ev1 system_id_1 w of
                (Inl e, w1) \<Rightarrow> (endpoint_except e, w1)
              | (Inr system1, w1) \<Rightarrow>
                  (case get_or_fetch_system ev2 system_id_2 w1 of
                     (Inl e, w2) \<Rightarrow> (endpoint_except e, w2)
                   | (Inr system2, w2) \<Rightarrow>
                       (case calculate_distance system1 system2 of
                          Inl e \<Rightarrow> (endpoint_except e, w2)
                        | Inr d \<Rightarrow>
                            ((DistanceBody (system_id system1) (name system1)
                                (system_id system2) (name system2)
                                (distance_meters d) (distance_lightyears d), 200), w2)))))
      | _ \<Rightarrow> ((ErrorBody ''System IDs must be valid integers'', 400), w))"

section \<open>Vocabulary of the properties\<close>

text \<open>The three ways in which the specification lets the network fail.\<close>

text \<open>
  The payload lacks a required field: it is not an object that holds \<^verbatim>\<open>system_id\<close>,
  \<^verbatim>\<open>name\<close> and, under \<^verbatim>\<open>position\<close>, an object that holds \<^verbatim>\<open>x\<close>, \<^verbatim>\<open>y\<close> and
  \<^verbatim>\<open>z\<close>.
\<close>

definition missing_required_field :: "json_payload \<Rightarrow> bool" where
  "missing_required_field payload =
     (case payload of
        PayloadOther v \<Rightarrow> True
      | PayloadObject data \<Rightarrow>
          json_system_id data = None \<or> json_name data = None \<or>
          (case json_position data of
             None \<Rightarrow> True
           | Some (PositionOther v) \<Rightarrow> True
           | Some (PositionObject p) \<Rightarrow>
               json_x p = None \<or> json_y p = None \<or> json_z p = None))"

text \<open>
  The two ways in which a field can be lacking. Either the first field that the client
  does not find, in the order in which it reads them, is a key absent from an object;
  or the client reaches a value that is not an object where it expects one (the payload
  itself, or the position when \<^verbatim>\<open>system_id\<close> and \<^verbatim>\<open>name\<close> are there).
\<close>

definition absent_key :: "json_payload \<Rightarrow> bool" where
  "absent_key payload =
     (case payload of
        PayloadOther v \<Rightarrow> False
      | PayloadObject data \<Rightarrow>
          json_system_id data = None \<or> json_name data = None \<or>
          (case json_position data of
             None \<Rightarrow> True
           | Some (PositionOther v) \<Rightarrow> False
           | Some (PositionObject p) \<Rightarrow>
               json_x p = None \<or> json_y p = None \<or> json_z p = None))"

definition object_expected :: "json_payload \<Rightarrow> bool" where
  "object_expected payload =
     (case payload of
        PayloadOther v \<Rightarrow> True
      | PayloadObject data \<Rightarrow>
          json_system_id data \<noteq> None \<and> json_name data \<noteq> None \<and>
          (case json_position data of
             Some (PositionOther v) \<Rightarrow> True
           | _ \<Rightarrow> False))"

text \<open>
  A response that is not an HTTP error and whose payload does not parse (the decoder
  raises a ValueError, the library's own or the plain one) or lacks a required field.
\<close>

fun malformed_upstream :: "upstream \<Rightarrow> bool" where
  "malformed_upstream (GetRaises e) = False"
| "malformed_upstream (Response st reason (JsonRaises e)) =
     ((st < 400 \<or> 600 \<le> st) \<and> is_ValueError e)"
| "malformed_upstream (Response st reason (JsonData payload)) =
     ((st < 400 \<or> 600 \<le> st) \<and> missing_required_field payload)"

text \<open>The malformed answers that do not parse or in which a key is absent.\<close>

fun unparseable_or_absent_key :: "upstream \<Rightarrow> bool" where
  "unparseable_or_absent_key (GetRaises e) = False"
| "unparseable_or_absent_key (Response st reason (JsonRaises e)) =
     ((st < 400 \<or> 600 \<le> st) \<and> is_ValueError e)"
| "unparseable_or_absent_key (Response st reason (JsonData payload)) =
     ((st < 400 \<or> 600 \<le> st) \<and> absent_key payload)"

text \<open>The malformed answers in which a value is not the object that the client expects.\<close>

fun object_expected_upstream :: "upstream \<Rightarrow> bool" where
  "object_expected_upstream (Response st reason (JsonData payload)) =
     ((st < 400 \<or> 600 \<le> st) \<and> object_expected payload)"
| "object_expected_upstream up = False"

text \<open>The request times out or the connection fails.\<close>

fun unreachable_upstream :: "upstream \<Rightarrow> bool" where
  "unreachable_upstream (GetRaises (Timeout m)) = True"
| "unreachable_upstream (GetRaises (ConnectionError m)) = True"
| "unreachable_upstream up = False"

text \<open>The response carries an HTTP error status other than 404.\<close>

fun error_status_upstream :: "upstream \<Rightarrow> bool" where
  "error_status_upstream (Response st reason js) = (400 \<le> st \<and> st < 600 \<and> st \<noteq> 404)"
| "error_status_upstream up = False"

definition status :: "response \<times> world \<Rightarrow> nat" where
  "status res = snd (fst res)"

text \<open>A sequence of resolutions, each with its own environment, run one after the other.\<close>

fun resolve_all :: "(env \<times> int) list \<Rightarrow> world \<Rightarrow> world" where
  "resolve_all [] w = w"
| "resolve_all ((ev, sid) # rest) w = resolve_all rest (snd (get_or_fetch_system ev sid w))"

text \<open>
  The operations of the store, as calls with their arguments and clock readings, and
  what a sequence of them leaves in the table. An insert that raises leaves the table as
  it was.
\<close>

datatype store_op =
    Lookup int
  | Insert timestamp int string pyfloat pyfloat pyfloat
  | Touch timestamp int

fun apply_store_op :: "store_op \<Rightarrow> systems_table \<Rightarrow> systems_table" where
  "apply_store_op (Lookup sid) tbl = tbl"
| "apply_store_op (Insert now sid nm vx vy vz) tbl =
     (case insert_system now sid nm vx vy vz tbl of Inl e \<Rightarrow> tbl | Inr tbl' \<Rightarrow> tbl')"
| "apply_store_op (Touch now sid) tbl = update_system_timestamp now sid tbl"

fun apply_store_ops :: "store_op list \<Rightarrow> systems_table \<Rightarrow> systems_table" where
  "apply_store_ops [] tbl = tbl"
| "apply_store_ops (op # ops) tbl = apply_store_ops ops (apply_store_op op tbl)"

text \<open>Concrete values for the examples.\<close>

definition jita_json :: json_payload where
  "jita_json = PayloadObject
     \<lparr>json_system_id = Some 30000142, json_name = Some ''Jita'',
      json_position = Some (PositionObject
        \<lparr>json_x = Some (Fin (- 129400292875304960)),
         json_y = Some (Fin 61596815791300400),
         json_z = Some (Fin 1720986748719556608)\<rparr>)\<rparr>"

definition jita_row :: "timestamp \<Rightarrow> timestamp \<Rightarrow> system_row" where
  "jita_row t_added t_seen =
     \<lparr>pos_x = Fin (- 129400292875304960), pos_y = Fin 61596815791300400,
      pos_z = Fin 1720986748719556608, system_id = 30000142, name = ''Jita'',
      added = t_added, last_update = t_seen\<rparr>"

definition empty_world :: world where
  "empty_world = \<lparr>systems = [], esi_requests = []\<rparr>"

definition payload_without_position :: upstream where
  "payload_without_position =
     Response 200 ''OK''
       (JsonData (PayloadObject \<lparr>json_system_id = Some 30000142, json_name = Some ''Jita'',
                                  json_position = None\<rparr>))"

definition payload_null_position :: upstream where
  "payload_null_position =
     Response 200 ''OK''
       (JsonData (PayloadObject \<lparr>json_system_id = Some 30000142, json_name = Some ''Jita'',
                                  json_position = Some (PositionOther JsonNull)\<rparr>))"

text \<open>The clock readings of a sequence of resolutions, in their order.\<close>

definition clock_readings :: "(env \<times> int) list \<Rightarrow> timestamp list" where
  "clock_readings ops = map (\<lambda>p. utcnow (fst p)) ops"

definition server_error :: upstream where
  "server_error = Response 500 ''Internal Server Error'' (JsonRaises (ValueError []))"

definition timed_out :: upstream where
  "timed_out = GetRaises (Timeout ''Connection timeout'')"

section \<open>Properties of the float model\<close>

lemma pow2_powi: "pow2 k = 2 powi k"
  by (simp add: pow2_def power_int_def inverse_eq_divide power_one_over)

lemma pow2_pos: "0 < pow2 k"
  by (simp add: pow2_powi)

lemma pow2_less: "a < b \<Longrightarrow> pow2 a < pow2 b"
  by (simp add: pow2_powi power_int_strict_increasing)

lemma pow2_le: "a \<le> b \<Longrightarrow> pow2 a \<le> pow2 b"
  by (simp add: pow2_powi power_int_increasing)

lemma pow2_add: "pow2 (a + b) = pow2 a * pow2 b"
  by (simp add: pow2_powi power_int_add)

lemma pow2_nat: "0 \<le> k \<Longrightarrow> pow2 k = 2 ^ nat k"
  by (simp add: pow2_def)

text \<open>The exponent that \<open>ilog2\<close> computes is the binary exponent.\<close>

lemma ilog2_bounds:
  assumes "0 < q"
  shows "pow2 (ilog2 q) \<le> q \<and> q < pow2 (ilog2 q + 1)"
proof -
  obtain n d where nd: "quotient_of q = (n, d)" by (cases "quotient_of q")
  have d: "0 < d" using nd by (rule quotient_of_denom_pos)
  have q: "q = of_int n / of_int d" using nd by (rule quotient_of_div)
  have n: "0 < n" using assms d q by (simp add: zero_less_divide_iff)
  let ?bn = "bitlen n" and ?bd = "bitlen d"
  have bn: "2 ^ nat (?bn - 1) \<le> n" "n < 2 ^ nat ?bn" using bitlen_bounds [OF n] by auto
  have bd: "2 ^ nat (?bd - 1) \<le> d" "d < 2 ^ nat ?bd" using bitlen_bounds [OF d] by auto
  have bn1: "1 \<le> ?bn" using n by (simp add: bitlen_alt_def)
  have bd1: "1 \<le> ?bd" using d by (simp add: bitlen_alt_def)
  have rn1: "pow2 (?bn - 1) \<le> of_int n"
  proof -
    have "(of_int (2 ^ nat (?bn - 1)) :: rat) \<le> of_int n"
      using bn(1) by (simp only: of_int_le_iff)
    then show ?thesis using bn1 by (simp add: pow2_nat)
  qed
  have rn2: "(of_int n :: rat) < pow2 ?bn"
  proof -
    have "(of_int n :: rat) < of_int (2 ^ nat ?bn)"
      using bn(2) by (simp only: of_int_less_iff)
    then show ?thesis using bn1 by (simp add: pow2_nat)
  qed
  have rd1: "pow2 (?bd - 1) \<le> of_int d"
  proof -
    have "(of_int (2 ^ nat (?bd - 1)) :: rat) \<le> of_int d"
      using bd(1) by (simp only: of_int_le_iff)
    then show ?thesis using bd1 by (simp add: pow2_nat)
  qed
  have rd2: "(of_int d :: rat) < pow2 ?bd"
  proof -
    have "(of_int d :: rat) < of_int (2 ^ nat ?bd)"
      using bd(2) by (simp only: of_int_less_iff)
    then show ?thesis using bd1 by (simp add: pow2_nat)
  qed
  have up: "q < pow2 (?bn - ?bd + 1)"
  proof -
    have "of_int n < pow2 (?bn - ?bd + 1) * pow2 (?bd - 1)"
      using rn2 by (simp flip: pow2_add)
    also have "\<dots> \<le> pow2 (?bn - ?bd + 1) * of_int d"
      using rd1 pow2_pos by (simp add: mult_left_mono less_imp_le)
    finally show ?thesis using d by (simp add: q pos_divide_less_eq)
  qed
  have lo: "pow2 (?bn - ?bd - 1) \<le> q"
  proof -
    have "pow2 (?bn - ?bd - 1) * of_int d \<le> pow2 (?bn - ?bd - 1) * pow2 ?bd"
      using rd2 pow2_pos by (simp add: mult_left_mono less_imp_le)
    also have "\<dots> = pow2 (?bn - 1)" by (simp flip: pow2_add)
    also have "\<dots> \<le> of_int n" by (rule rn1)
    finally show ?thesis using d by (simp add: q pos_le_divide_eq)
  qed
  show ?thesis
    using up lo by (simp add: ilog2_def nd Let_def not_le)
qed

lemma ilog2_unique:
  assumes "pow2 e \<le> q" and "q < pow2 (e + 1)"
  shows "ilog2 q = e"
proof -
  have q: "0 < q" using assms(1) pow2_pos [of e] by simp
  note b = ilog2_bounds [OF q]
  have a: "pow2 e < pow2 (ilog2 q + 1)" using assms(1) b by simp
  have 1: "e < ilog2 q + 1"
  proof (rule ccontr)
    assume "\<not> e < ilog2 q + 1"
    then have "pow2 (ilog2 q + 1) \<le> pow2 e" by (intro pow2_le) simp
    with a show False by simp
  qed
  have c: "pow2 (ilog2 q) < pow2 (e + 1)" using assms(2) b by simp
  have 2: "ilog2 q < e + 1"
  proof (rule ccontr)
    assume "\<not> ilog2 q < e + 1"
    then have "pow2 (e + 1) \<le> pow2 (ilog2 q)" by (intro pow2_le) simp
    with c show False by simp
  qed
  from 1 2 show ?thesis by simp
qed

text \<open>The integer square root is the floor of the square root.\<close>

lemma isqrt_bounds:
  "0 \<le> n \<Longrightarrow> 0 \<le> isqrt n \<and> isqrt n * isqrt n \<le> n \<and> n < (isqrt n + 1) * (isqrt n + 1)"
proof (induction n rule: isqrt.induct)
  case (1 n)
  show ?case
  proof (cases "n < 2")
    case True
    with "1.prems" have "n = 0 \<or> n = 1" by auto
    then show ?thesis by (auto simp: isqrt.simps [of 0] isqrt.simps [of 1])
  next
    case False
    define r where "r = isqrt (n div 4)"
    have ih: "0 \<le> r" "r * r \<le> n div 4" "n div 4 < (r + 1) * (r + 1)"
      using "1.IH" [OF False] "1.prems" by (simp_all add: r_def)
    have lo: "(2 * r) * (2 * r) \<le> n"
    proof -
      have "(2 * r) * (2 * r) = 4 * (r * r)" by simp
      also have "\<dots> \<le> 4 * (n div 4)" using ih(2) by simp
      also have "\<dots> \<le> n" by presburger
      finally show ?thesis .
    qed
    have hi: "n < (2 * r + 2) * (2 * r + 2)"
    proof -
      have "n div 4 + 1 \<le> (r + 1) * (r + 1)" using ih(3) by simp
      then have "4 * (n div 4) + 4 \<le> 4 * ((r + 1) * (r + 1))" by simp
      moreover have "n < 4 * (n div 4) + 4" by presburger
      moreover have "4 * ((r + 1) * (r + 1)) = (2 * r + 2) * (2 * r + 2)"
        by (simp add: algebra_simps)
      ultimately show ?thesis by simp
    qed
    have eq: "isqrt n = (if (2 * r + 1) * (2 * r + 1) \<le> n then 2 * r + 1 else 2 * r)"
      using False by (subst isqrt.simps) (simp add: r_def Let_def)
    show ?thesis
    proof (cases "(2 * r + 1) * (2 * r + 1) \<le> n")
      case True
      have s: "isqrt n = 2 * r + 1" using True by (simp add: eq)
      have h: "n < (2 * r + 1 + 1) * (2 * r + 1 + 1)" using hi by (simp add: algebra_simps)
      show ?thesis unfolding s using True h ih(1) by simp
    next
      case False
      have s: "isqrt n = 2 * r" using False by (simp add: eq)
      show ?thesis unfolding s using False lo ih(1) by simp
    qed
  qed
qed

lemma isqrt_unique:
  assumes "0 \<le> s" and "s * s \<le> n" and "n < (s + 1) * (s + 1)"
  shows "isqrt n = s"
proof -
  have n: "0 \<le> n" using assms(2) zero_le_square [of s] by linarith
  note b = isqrt_bounds [OF n]
  let ?t = "isqrt n"
  have 1: "\<not> s < ?t"
  proof
    assume "s < ?t"
    then have "s + 1 \<le> ?t" by simp
    then have "(s + 1) * (s + 1) \<le> ?t * ?t" using assms(1) by (intro mult_mono) auto
    with b assms(3) show False by linarith
  qed
  have 2: "\<not> ?t < s"
  proof
    assume "?t < s"
    then have "?t + 1 \<le> s" by simp
    then have "(?t + 1) * (?t + 1) \<le> s * s" using b by (intro mult_mono) auto
    with b assms(2) show False by linarith
  qed
  from 1 2 show ?thesis by simp
qed

text \<open>Rounding, for a rational of which the exponent and the nearest multiple are known.\<close>

lemma round_half_even_near:
  assumes "\<bar>q - of_int k\<bar> < 1 / 2"
  shows "round_half_even q = k"
proof (cases "of_int k \<le> q")
  case True
  have "\<lfloor>q\<rfloor> = k" using True assms by (intro floor_unique) auto
  then show ?thesis using assms True by (simp add: round_half_even_def)
next
  case False
  have f: "\<lfloor>q\<rfloor> = k - 1" using False assms by (intro floor_unique) auto
  have "1 / 2 < q - of_int (k - 1)" using assms False by auto
  then show ?thesis using f by (simp add: round_half_even_def)
qed

lemma round_double_near:
  assumes "pow2 e \<le> \<bar>q\<bar>" and "\<bar>q\<bar> < pow2 (e + 1)" and "- 1022 \<le> e"
    and "\<bar>q / pow2 (e - 52) - of_int k\<bar> < 1 / 2"
    and "\<bar>of_int k * pow2 (e - 52)\<bar> < pow2 1024"
  shows "round_double q = Fin (of_int k * pow2 (e - 52))"
proof -
  have q: "q \<noteq> 0" using assms(1) pow2_pos [of e] by auto
  have e: "ilog2 \<bar>q\<bar> = e" using assms(1,2) by (rule ilog2_unique)
  have m: "max e (- 1022) = e" using assms(3) by simp
  have r: "round_half_even (q / pow2 (e - 52)) = k" using assms(4) by (rule round_half_even_near)
  show ?thesis using q assms(5) by (simp add: round_double_def e m r Let_def not_le)
qed

lemma round_double_exact:
  assumes "pow2 e \<le> \<bar>q\<bar>" and "\<bar>q\<bar> < pow2 (e + 1)" and "- 1022 \<le> e" and "e < 1024"
    and "q = of_int k * pow2 (e - 52)"
  shows "round_double q = Fin q"
proof -
  have u: "pow2 (e - 52) \<noteq> 0" using pow2_pos [of "e - 52"] by simp
  have 1: "\<bar>q / pow2 (e - 52) - of_int k\<bar> < 1 / 2" using u by (simp add: assms(5))
  have "pow2 (e + 1) \<le> pow2 1024" using assms(4) by (intro pow2_le) simp
  then have 2: "\<bar>of_int k * pow2 (e - 52)\<bar> < pow2 1024"
    using assms(2) by (simp flip: assms(5))
  show ?thesis using round_double_near [OF assms(1,2,3) 1 2] by (simp flip: assms(5))
qed

lemma sqrt_rat_inexact:
  assumes "pow2 e \<le> q" and "q < pow2 (e + 1)"
    and "k = (if 120 \<le> e then 0 else (121 - e) div 2)"
    and "0 \<le> s" and "of_int (s * s) < q * pow2 (2 * k)"
    and "q * pow2 (2 * k) < of_int ((s + 1) * (s + 1))"
  shows "sqrt_rat q = (of_int s + 1 / 2) / pow2 k"
proof -
  have e: "ilog2 q = e" using assms(1,2) by (rule ilog2_unique)
  let ?m = "\<lfloor>q * pow2 (2 * k)\<rfloor>"
  have 1: "s * s \<le> ?m" using assms(5) by (simp add: le_floor_iff less_imp_le)
  have 2: "?m < (s + 1) * (s + 1)" using assms(6) by (simp add: floor_less_iff)
  have s: "isqrt ?m = s" using assms(4) 1 2 by (rule isqrt_unique)
  have k: "(if 120 \<le> ilog2 q then 0 else (121 - ilog2 q) div 2) = k" by (simp add: e assms(3))
  show ?thesis unfolding sqrt_rat_def k Let_def s using assms(5) by simp
qed

lemma sqrt_rat_exact:
  assumes "pow2 e \<le> q" and "q < pow2 (e + 1)"
    and "k = (if 120 \<le> e then 0 else (121 - e) div 2)"
    and "0 \<le> s" and "of_int (s * s) = q * pow2 (2 * k)"
  shows "sqrt_rat q = of_int s / pow2 k"
proof -
  have e: "ilog2 q = e" using assms(1,2) by (rule ilog2_unique)
  let ?m = "\<lfloor>q * pow2 (2 * k)\<rfloor>"
  have "q * pow2 (2 * k) = of_int (s * s)" using assms(5) by simp
  then have m: "?m = s * s" by (simp only: floor_of_int)
  have "s * s < (s + 1) * (s + 1)" using assms(4) by (simp add: algebra_simps)
  then have s: "isqrt ?m = s" using assms(4) by (intro isqrt_unique) (simp_all add: m)
  have k: "(if 120 \<le> ilog2 q then 0 else (121 - ilog2 q) div 2) = k" by (simp add: e assms(3))
  show ?thesis unfolding sqrt_rat_def k Let_def s using assms(5) by simp
qed

section \<open>Properties of the distance function\<close>

lemma round_double_zero: "round_double 0 = Fin 0"
  by (simp add: round_double_def)

lemma fsquare_zero: "fsquare (Fin 0) = Inr (Fin 0)"
  by (simp add: round_double_zero)

lemma fsub_self: "fsub (Fin a) (Fin a) = Fin 0"
  by (simp add: round_double_zero)

lemma fadd_zero: "fadd (Fin 0) (Fin 0) = Fin 0"
  by (simp add: round_double_zero)

lemma fdiv_zero_lightyear: "fdiv (Fin 0) LIGHTYEAR_IN_METERS = Inr (Fin 0)"
  by (simp add: LIGHTYEAR_IN_METERS_def round_double_zero)

text \<open>
  Claim C6. For every record whose three coordinates are numbers (finite floats), the
  distance of the record to itself is exactly 0.0 in metres and exactly 0.0 in
  light-years.
\<close>

theorem calculate_distance_same_point:
  assumes "pos_x a = Fin xa" and "pos_y a = Fin ya" and "pos_z a = Fin za"
  shows "calculate_distance a a = Inr \<lparr>distance_meters = Fin 0, distance_lightyears = Fin 0\<rparr>"
  unfolding calculate_distance_def
  by (simp add: assms fsub_self fsquare_zero fadd_zero fdiv_zero_lightyear
      del: fsub.simps fsquare.simps fadd.simps fdiv.simps)

theorem calculate_distance_same_point_witness:
  "calculate_distance (point 1000 2000 3000) (point 1000 2000 3000)
     = Inr \<lparr>distance_meters = Fin 0, distance_lightyears = Fin 0\<rparr>"
  using calculate_distance_same_point [of "point 1000 2000 3000" 1000 2000 3000]
  by (simp add: point_def)

text \<open>
  A coordinate that is not a number does not give 0.0: the difference of an infinity
  with itself is NaN, and NaN goes through the square, the root and the division.
\<close>

lemma distance_of_infinite_point_to_itself:
  "calculate_distance \<lparr>pos_x = PInf, pos_y = Fin 0, pos_z = Fin 0\<rparr>
                      \<lparr>pos_x = PInf, pos_y = Fin 0, pos_z = Fin 0\<rparr>
     = Inr \<lparr>distance_meters = NaN, distance_lightyears = NaN\<rparr>"
  by (simp add: calculate_distance_def round_double_zero LIGHTYEAR_IN_METERS_def)

subsection \<open>The worked examples\<close>

lemma round_double_lightyear: "round_double 9460000000000000 = Fin 9460000000000000"
  by (rule round_double_exact [where e = 53 and k = 4730000000000000])
     (simp_all add: pow2_def)

lemma round_double_lightyear_squared:
  "round_double 89491600000000000000000000000000 = Fin 89491600000000000853003858870272"
  using round_double_near [of 106 89491600000000000000000000000000 4967781741527233]
  by (simp add: pow2_def)

lemma round_double_lightyear_squared_again:
  "round_double 89491600000000000853003858870272 = Fin 89491600000000000853003858870272"
  by (rule round_double_exact [where e = 106 and k = 4967781741527233])
     (simp_all add: pow2_def)

lemma sqrt_rat_lightyear_squared:
  "sqrt_rat 89491600000000000853003858870272 = (of_int 1210880000000000005 + 1 / 2) / pow2 7"
  by (rule sqrt_rat_inexact [where e = 106]) (simp_all add: pow2_def)

lemma round_double_sqrt_lightyear_squared:
  "round_double (sqrt_rat 89491600000000000853003858870272) = Fin 9460000000000000"
  unfolding sqrt_rat_lightyear_squared
  using round_double_near
          [of 53 "(of_int 1210880000000000005 + 1 / 2) / pow2 7" 4730000000000000]
  by (simp add: pow2_def)

lemma round_double_one: "round_double 1 = Fin 1"
  by (rule round_double_exact [where e = 0 and k = 4503599627370496])
     (simp_all add: pow2_def)

lemma distance_one_lightyear:
  "calculate_distance (point 0 0 0) (point 9460000000000000 0 0)
     = Inr \<lparr>distance_meters = Fin 9460000000000000, distance_lightyears = Fin 1\<rparr>"
  by (simp add: calculate_distance_def point_def LIGHTYEAR_IN_METERS_def round_double_zero
      round_double_lightyear round_double_lightyear_squared
      round_double_lightyear_squared_again round_double_sqrt_lightyear_squared
      round_double_one)

lemma round_double_3: "round_double 3 = Fin 3"
  by (rule round_double_exact [where e = 1 and k = 6755399441055744]) (simp_all add: pow2_def)

lemma round_double_4: "round_double 4 = Fin 4"
  by (rule round_double_exact [where e = 2 and k = 4503599627370496]) (simp_all add: pow2_def)

lemma round_double_12: "round_double 12 = Fin 12"
  by (rule round_double_exact [where e = 3 and k = 6755399441055744]) (simp_all add: pow2_def)

lemma round_double_9: "round_double 9 = Fin 9"
  by (rule round_double_exact [where e = 3 and k = 5066549580791808]) (simp_all add: pow2_def)

lemma round_double_16: "round_double 16 = Fin 16"
  by (rule round_double_exact [where e = 4 and k = 4503599627370496]) (simp_all add: pow2_def)

lemma round_double_144: "round_double 144 = Fin 144"
  by (rule round_double_exact [where e = 7 and k = 5066549580791808]) (simp_all add: pow2_def)

lemma round_double_25: "round_double 25 = Fin 25"
  by (rule round_double_exact [where e = 4 and k = 7036874417766400]) (simp_all add: pow2_def)

lemma round_double_169: "round_double 169 = Fin 169"
  by (rule round_double_exact [where e = 7 and k = 5946158883012608]) (simp_all add: pow2_def)

lemma round_double_13: "round_double 13 = Fin 13"
  by (rule round_double_exact [where e = 3 and k = 7318349394477056]) (simp_all add: pow2_def)

lemma sqrt_rat_169: "sqrt_rat 169 = 13"
  using sqrt_rat_exact [of 7 169 57 1873497444986126336]
  by (simp add: pow2_def)

lemma round_double_13_lightyears:
  "round_double (13 / 9460000000000000) = Fin (1742014566909829 / 2 ^ 100)"
  using round_double_near [of "- 50" "13 / 9460000000000000" 6968058267639316]
  by (simp add: pow2_def)

lemma distance_3_4_12:
  "calculate_distance (point 0 0 0) (point 3 4 12)
     = Inr \<lparr>distance_meters = Fin 13,
            distance_lightyears = Fin (1742014566909829 / 2 ^ 100)\<rparr>"
  by (simp add: calculate_distance_def point_def LIGHTYEAR_IN_METERS_def
      round_double_3 round_double_4 round_double_12 round_double_9 round_double_16
      round_double_144 round_double_25 round_double_169 round_double_13 sqrt_rat_169
      round_double_13_lightyears)

text \<open>
  Claim C8. The worked examples: the points (0,0,0) and (9460000000000000.0, 0, 0) are
  exactly 9460000000000000.0 metres and exactly 1.0 light-years apart; the points
  (0,0,0) and (3,4,12) are exactly 13.0 metres apart.
\<close>

theorem calculate_distance_worked_examples:
  "calculate_distance (point 0 0 0) (point 9460000000000000 0 0)
     = Inr \<lparr>distance_meters = Fin 9460000000000000, distance_lightyears = Fin 1\<rparr>
   \<and> map_sum id distance_meters (calculate_distance (point 0 0 0) (point 3 4 12))
     = Inr (Fin 13)"
  by (simp add: distance_one_lightyear distance_3_4_12)

text \<open>
  Claim C7. Whenever the distance function returns, its light-year output is the float
  division of its metre output by the constant 9460000000000000.0, with nothing else
  applied to it.
\<close>

theorem distance_lightyears_is_meters_divided:
  assumes "calculate_distance a b = Inr d"
  shows "fdiv (distance_meters d) LIGHTYEAR_IN_METERS = Inr (distance_lightyears d)
         \<and> LIGHTYEAR_IN_METERS = Fin 9460000000000000"
proof -
  obtain dm dl where dm: "fdiv dm LIGHTYEAR_IN_METERS = Inr dl"
    and d: "d = \<lparr>distance_meters = dm, distance_lightyears = dl\<rparr>"
    using assms by (auto simp: calculate_distance_def split: sum.splits)
  show ?thesis using dm by (simp add: d LIGHTYEAR_IN_METERS_def)
qed

theorem distance_lightyears_is_meters_divided_witness:
  "calculate_distance (point 0 0 0) (point 3 4 12)
     = Inr \<lparr>distance_meters = Fin 13,
            distance_lightyears = Fin (1742014566909829 / 2 ^ 100)\<rparr>
   \<and> fdiv (Fin 13) LIGHTYEAR_IN_METERS = Inr (Fin (1742014566909829 / 2 ^ 100))"
  using distance_lightyears_is_meters_divided [OF distance_3_4_12] distance_3_4_12
  by simp

section \<open>Properties of the store\<close>

lemma get_system_update:
  "get_system (update_system_timestamp now k tbl) sid
     = map_option (\<lambda>row. if sid = k then row\<lparr>last_update := now\<rparr> else row)
         (get_system tbl sid)"
  by (induction tbl) (auto simp: get_system_def update_system_timestamp_def)

lemma get_system_append:
  "get_system (tbl @ [r]) sid
     = (case get_system tbl sid of
          Some row \<Rightarrow> Some row
        | None \<Rightarrow> if system_id r = sid then Some r else None)"
  by (induction tbl) (auto simp: get_system_def)

lemma get_system_Some_id: "get_system tbl sid = Some row \<Longrightarrow> system_id row = sid"
  by (induction tbl) (auto simp: get_system_def split: if_splits)

lemma insert_system_keeps:
  assumes "insert_system now k nm vx vy vz tbl = Inr tbl'"
    and "get_system tbl sid = Some row"
  shows "get_system tbl' sid = Some row"
  using assms by (auto simp: insert_system_def get_system_append split: if_splits)

lemma apply_store_op_keeps:
  assumes "get_system tbl sid = Some (row\<lparr>last_update := t\<rparr>)"
  shows "\<exists>t'. get_system (apply_store_op op tbl) sid = Some (row\<lparr>last_update := t'\<rparr>)"
proof (cases op)
  case (Lookup k)
  then show ?thesis using assms by auto
next
  case (Insert now k nm vx vy vz)
  show ?thesis
  proof (cases "insert_system now k nm vx vy vz tbl")
    case (Inl e)
    then show ?thesis using assms Insert by auto
  next
    case (Inr tbl')
    then show ?thesis using insert_system_keeps [OF Inr assms] Insert by auto
  qed
next
  case (Touch now k)
  then show ?thesis using assms by (auto simp: get_system_update)
qed

lemma apply_store_ops_keeps:
  "get_system tbl sid = Some (row\<lparr>last_update := t\<rparr>) \<Longrightarrow>
   \<exists>t'. get_system (apply_store_ops ops tbl) sid = Some (row\<lparr>last_update := t'\<rparr>)"
proof (induction ops arbitrary: tbl t)
  case Nil
  then show ?case by auto
next
  case (Cons op ops)
  from apply_store_op_keeps [OF Cons.prems] obtain t1
    where "get_system (apply_store_op op tbl) sid = Some (row\<lparr>last_update := t1\<rparr>)" ..
  from Cons.IH [OF this] show ?case by simp
qed

text \<open>
  Claim C9. Once a record is in the store, every later sequence of store operations
  (lookups, inserts, touches, of any ids) leaves a record under its id that differs
  from it in \<open>last_update\<close> at most: \<open>system_id\<close>, \<open>name\<close>, the three coordinates
  and \<open>added\<close> are as they were.
\<close>

theorem stored_fields_immutable:
  assumes "get_system tbl sid = Some row"
  shows "\<exists>t. get_system (apply_store_ops ops tbl) sid = Some (row\<lparr>last_update := t\<rparr>)"
proof -
  have "get_system tbl sid = Some (row\<lparr>last_update := last_update row\<rparr>)"
    using assms by simp
  then show ?thesis by (rule apply_store_ops_keeps)
qed

theorem stored_fields_immutable_witness:
  "get_system [jita_row 5 5] 30000142 = Some (jita_row 5 5)
   \<and> (\<exists>t. get_system
             (apply_store_ops
                [Lookup 30000142, Touch 7 30000142, Insert 8 30000144 ''Perimeter''
                   (Fin 1) (Fin 2) (Fin 3), Insert 9 30000142 ''Other'' (Fin 0) (Fin 0) (Fin 0),
                 Touch 10 30000144]
                [jita_row 5 5]) 30000142
           = Some ((jita_row 5 5)\<lparr>last_update := t\<rparr>))"
proof -
  have h: "get_system [jita_row 5 5] 30000142 = Some (jita_row 5 5)"
    by (simp add: get_system_def jita_row_def)
  show ?thesis by (rule conjI [OF h stored_fields_immutable [OF h]])
qed

section \<open>Properties of the resolution service\<close>

lemma get_or_fetch_system_hit:
  assumes "get_system (systems w) sid = Some row"
  shows "get_or_fetch_system ev sid w
           = (Inr row, w\<lparr>systems := update_system_timestamp (utcnow ev) sid (systems w)\<rparr>)"
  using assms by (simp add: get_or_fetch_system_def)

lemma get_or_fetch_system_miss_ok:
  assumes "get_system (systems w) sid = None"
    and "get_or_fetch_system ev sid w = (Inr r, w1)"
  shows "get_system (systems w1) sid = Some r \<and> esi_requests w1 = esi_requests w @ [sid]"
  using assms
  by (auto simp: get_or_fetch_system_def Let_def split: sum.splits option.splits)

lemma get_or_fetch_system_keeps:
  assumes "get_system (systems w) sid = Some (row\<lparr>last_update := t\<rparr>)"
  shows "\<exists>t'. get_system (systems (snd (get_or_fetch_system ev k w))) sid
               = Some (row\<lparr>last_update := t'\<rparr>)"
proof (cases "get_system (systems w) k")
  case (Some rk)
  then show ?thesis
    using assms by (auto simp: get_or_fetch_system_hit get_system_update)
next
  case None
  show ?thesis
  proof (cases "get_system_info k (upstream ev)")
    case (Inl e)
    then show ?thesis using None assms by (auto simp: get_or_fetch_system_def)
  next
    case (Inr d)
    show ?thesis
    proof (cases "insert_system (utcnow ev) (system_id d) (name d) (pos_x d) (pos_y d)
                    (pos_z d) (systems w)")
      case (Inl e)
      then show ?thesis using None Inr assms by (auto simp: get_or_fetch_system_def)
    next
      case tbl: (Inr tbl)
      have "get_system tbl sid = Some (row\<lparr>last_update := t\<rparr>)"
        using tbl assms by (rule insert_system_keeps)
      then show ?thesis
        using None Inr tbl
        by (auto simp: get_or_fetch_system_def Let_def split: option.splits)
    qed
  qed
qed

lemma resolve_all_keeps:
  "get_system (systems w) sid = Some (row\<lparr>last_update := t\<rparr>) \<Longrightarrow>
   \<exists>t'. get_system (systems (resolve_all ops w)) sid = Some (row\<lparr>last_update := t'\<rparr>)"
proof (induction ops arbitrary: w t)
  case Nil
  then show ?case by auto
next
  case (Cons p ops)
  obtain ev k where p: "p = (ev, k)" by (cases p)
  from get_or_fetch_system_keeps [OF Cons.prems] obtain t1
    where "get_system (systems (snd (get_or_fetch_system ev k w))) sid
             = Some (row\<lparr>last_update := t1\<rparr>)" ..
  from Cons.IH [OF this] show ?case by (simp add: p)
qed

text \<open>
  Claim C3. When the lookup misses and the client then fails, with whatever exception,
  the resolution raises that same exception and the table is what it was: no row is
  inserted and no timestamp is written. (The only trace is the request in the log.)
\<close>

theorem resolver_failure_propagates:
  assumes "get_system (systems w) sid = None"
    and "get_system_info sid (upstream ev) = Inl e"
  shows "fst (get_or_fetch_system ev sid w) = Inl e
         \<and> systems (snd (get_or_fetch_system ev sid w)) = systems w"
  using assms by (simp add: get_or_fetch_system_def)

theorem resolver_failure_propagates_witness:
  "get_system (systems empty_world) 30000142 = None
   \<and> get_system_info 30000142 (GetRaises (Timeout ''timed out''))
       = Inl (RuntimeError ''Failed to fetch system data from ESI: timed out'')
   \<and> fst (get_or_fetch_system \<lparr>utcnow = 1, upstream = GetRaises (Timeout ''timed out'')\<rparr>
            30000142 empty_world)
       = Inl (RuntimeError ''Failed to fetch system data from ESI: timed out'')
   \<and> systems (snd (get_or_fetch_system
                     \<lparr>utcnow = 1, upstream = GetRaises (Timeout ''timed out'')\<rparr>
                     30000142 empty_world)) = []"
proof -
  have 1: "get_system (systems empty_world) 30000142 = None"
    by (simp add: empty_world_def get_system_def)
  have 2: "get_system_info 30000142
             (upstream \<lparr>utcnow = 1, upstream = GetRaises (Timeout ''timed out'')\<rparr>)
           = Inl (RuntimeError ''Failed to fetch system data from ESI: timed out'')"
    by (simp add: get_system_info_def try_get_system_info_def)
  show ?thesis
    using 1 2 resolver_failure_propagates [OF 1 2] by (simp add: empty_world_def)
qed

text \<open>
  Claim C10. On a cache hit the resolution returns the row as the lookup read it, before
  the touch: its \<open>last_update\<close> is the one that was stored, while the table now holds
  the clock reading of this resolution.
\<close>

theorem cache_hit_returns_row_read_before_touch:
  assumes "get_system (systems w) sid = Some row"
  shows "fst (get_or_fetch_system ev sid w) = Inr row
         \<and> get_system (systems (snd (get_or_fetch_system ev sid w))) sid
             = Some (row\<lparr>last_update := utcnow ev\<rparr>)"
  using assms by (simp add: get_or_fetch_system_hit get_system_update)

theorem cache_hit_returns_row_read_before_touch_witness:
  "get_system [jita_row 5 5] 30000142 = Some (jita_row 5 5)
   \<and> fst (get_or_fetch_system \<lparr>utcnow = 9, upstream = GetRaises (Timeout [])\<rparr> 30000142
            \<lparr>systems = [jita_row 5 5], esi_requests = []\<rparr>) = Inr (jita_row 5 5)
   \<and> get_system (systems (snd (get_or_fetch_system
            \<lparr>utcnow = 9, upstream = GetRaises (Timeout [])\<rparr> 30000142
            \<lparr>systems = [jita_row 5 5], esi_requests = []\<rparr>))) 30000142
       = Some (jita_row 5 9)"
proof -
  have h: "get_system (systems \<lparr>systems = [jita_row 5 5], esi_requests = []\<rparr>) 30000142
             = Some (jita_row 5 5)"
    by (simp add: get_system_def jita_row_def)
  show ?thesis
    using h cache_hit_returns_row_read_before_touch
              [OF h, of "\<lparr>utcnow = 9, upstream = GetRaises (Timeout [])\<rparr>"]
    by (simp add: jita_row_def)
qed

lemma resolve_jita:
  "get_or_fetch_system \<lparr>utcnow = 5, upstream = Response 200 ''OK'' (JsonData jita_json)\<rparr>
       30000142 empty_world
     = (Inr (jita_row 5 5), \<lparr>systems = [jita_row 5 5], esi_requests = [30000142]\<rparr>)"
  by (simp add: get_or_fetch_system_def get_system_info_def try_get_system_info_def
      raise_for_status_def extract_fields_def insert_system_def get_system_def
      jita_json_def jita_row_def empty_world_def)

text \<open>
  Claim C4. After a resolution of an id that went to the network and succeeded, and
  after any further resolutions of any ids, a resolution of that id finds the record in
  the table, sends no request (the log of requests is unchanged), returns the stored
  record, which is the one returned the first time up to \<open>last_update\<close>, and leaves
  the clock reading in its \<open>last_update\<close>.
\<close>

theorem cached_after_first_resolution:
  assumes "get_system (systems w) sid = None"
    and "get_or_fetch_system ev sid w = (Inr r, w1)"
  shows "\<exists>t. get_system (systems (resolve_all ops w1)) sid = Some (r\<lparr>last_update := t\<rparr>)
           \<and> fst (get_or_fetch_system ev' sid (resolve_all ops w1))
               = Inr (r\<lparr>last_update := t\<rparr>)
           \<and> esi_requests (snd (get_or_fetch_system ev' sid (resolve_all ops w1)))
               = esi_requests (resolve_all ops w1)
           \<and> get_system (systems (snd (get_or_fetch_system ev' sid (resolve_all ops w1)))) sid
               = Some (r\<lparr>last_update := utcnow ev'\<rparr>)"
proof -
  have "get_system (systems w1) sid = Some r"
    using get_or_fetch_system_miss_ok [OF assms] by simp
  then have "get_system (systems w1) sid = Some (r\<lparr>last_update := last_update r\<rparr>)"
    by simp
  from resolve_all_keeps [OF this] obtain t
    where t: "get_system (systems (resolve_all ops w1)) sid = Some (r\<lparr>last_update := t\<rparr>)" ..
  show ?thesis
    using t by (intro exI [of _ t]) (simp add: get_or_fetch_system_hit get_system_update)
qed

theorem cached_after_first_resolution_witness:
  "get_system (systems empty_world) 30000142 = None
   \<and> get_or_fetch_system \<lparr>utcnow = 5, upstream = Response 200 ''OK'' (JsonData jita_json)\<rparr>
         30000142 empty_world
       = (Inr (jita_row 5 5), \<lparr>systems = [jita_row 5 5], esi_requests = [30000142]\<rparr>)
   \<and> (\<exists>t. fst (get_or_fetch_system \<lparr>utcnow = 9, upstream = GetRaises (Timeout [])\<rparr> 30000142
                (resolve_all
                   [(\<lparr>utcnow = 6, upstream = GetRaises (Timeout [])\<rparr>, 30000144),
                    (\<lparr>utcnow = 7, upstream = GetRaises (Timeout [])\<rparr>, 30000142)]
                   \<lparr>systems = [jita_row 5 5], esi_requests = [30000142]\<rparr>))
            = Inr ((jita_row 5 5)\<lparr>last_update := t\<rparr>))"
proof -
  have 1: "get_system (systems empty_world) 30000142 = None"
    by (simp add: empty_world_def get_system_def)
  from cached_after_first_resolution [OF 1 resolve_jita] obtain t where
    "fst (get_or_fetch_system \<lparr>utcnow = 9, upstream = GetRaises (Timeout [])\<rparr> 30000142
            (resolve_all
               [(\<lparr>utcnow = 6, upstream = GetRaises (Timeout [])\<rparr>, 30000144),
                (\<lparr>utcnow = 7, upstream = GetRaises (Timeout [])\<rparr>, 30000142)]
               \<lparr>systems = [jita_row 5 5], esi_requests = [30000142]\<rparr>))
       = Inr ((jita_row 5 5)\<lparr>last_update := t\<rparr>)"
    by blast
  then show ?thesis using 1 resolve_jita by blast
qed

subsection \<open>Two resolutions in a row\<close>

text \<open>
  A clock reading that no earlier reading exceeds bounds every \<open>last_update\<close> of the
  table: each resolution writes its own reading or nothing.
\<close>

lemma get_or_fetch_system_not_ahead:
  assumes "\<forall>row\<in>set (systems w). last_update row \<le> c" and "utcnow ev \<le> c"
  shows "\<forall>row\<in>set (systems (snd (get_or_fetch_system ev k w))). last_update row \<le> c"
proof (cases "get_system (systems w) k")
  case (Some rk)
  then show ?thesis
    using assms by (auto simp: get_or_fetch_system_hit update_system_timestamp_def)
next
  case None
  show ?thesis
  proof (cases "get_system_info k (upstream ev)")
    case (Inl e)
    then show ?thesis using None assms by (simp add: get_or_fetch_system_def)
  next
    case (Inr d)
    show ?thesis
    proof (cases "insert_system (utcnow ev) (system_id d) (name d) (pos_x d) (pos_y d)
                    (pos_z d) (systems w)")
      case (Inl e)
      then show ?thesis using None Inr assms by (simp add: get_or_fetch_system_def)
    next
      case tbl: (Inr tbl)
      have "\<forall>row\<in>set tbl. last_update row \<le> c"
        using tbl assms by (auto simp: insert_system_def split: if_splits)
      then show ?thesis
        using None Inr tbl
        by (auto simp: get_or_fetch_system_def Let_def split: option.splits)
    qed
  qed
qed

lemma resolve_all_not_ahead:
  "\<forall>row\<in>set (systems w). last_update row \<le> c \<Longrightarrow>
   \<forall>t\<in>set (clock_readings ops). t \<le> c \<Longrightarrow>
   \<forall>row\<in>set (systems (resolve_all ops w)). last_update row \<le> c"
proof (induction ops arbitrary: w)
  case Nil
  then show ?case by simp
next
  case (Cons p ops)
  obtain ev k where p: "p = (ev, k)" by (cases p)
  have 1: "\<forall>row\<in>set (systems (snd (get_or_fetch_system ev k w))). last_update row \<le> c"
    using Cons.prems by (intro get_or_fetch_system_not_ahead) (simp_all add: p clock_readings_def)
  have 2: "\<forall>t\<in>set (clock_readings ops). t \<le> c"
    using Cons.prems(2) by (simp add: clock_readings_def)
  from Cons.IH [OF 1 2] show ?case by (simp add: p)
qed

lemma get_system_in_table: "get_system tbl sid = Some row \<Longrightarrow> row \<in> set tbl"
  by (induction tbl) (auto simp: get_system_def split: if_splits)

lemma resolve_twice_fields:
  assumes "get_or_fetch_system ev1 sid w = (Inr r1, w1)"
    and "get_or_fetch_system ev2 sid w1 = (Inr r2, w2)"
  shows "(get_system (systems w) sid = None \<and> r2 = r1)
         \<or> (get_system (systems w) sid = Some r1 \<and> r2 = r1\<lparr>last_update := utcnow ev1\<rparr>)"
proof (cases "get_system (systems w) sid")
  case None
  have "get_system (systems w1) sid = Some r1"
    using get_or_fetch_system_miss_ok [OF None assms(1)] by simp
  then have "r2 = r1" using assms(2) by (simp add: get_or_fetch_system_hit)
  then show ?thesis using None by simp
next
  case (Some row)
  have 1: "r1 = row" "w1 = w\<lparr>systems := update_system_timestamp (utcnow ev1) sid (systems w)\<rparr>"
    using assms(1) Some by (simp_all add: get_or_fetch_system_hit)
  have "get_system (systems w1) sid = Some (row\<lparr>last_update := utcnow ev1\<rparr>)"
    using Some by (simp add: 1 get_system_update)
  then have "r2 = row\<lparr>last_update := utcnow ev1\<rparr>"
    using assms(2) by (simp add: get_or_fetch_system_hit)
  then show ?thesis using Some by (simp add: 1)
qed

lemma resolve_jita_at_10:
  "get_or_fetch_system \<lparr>utcnow = 10, upstream = Response 200 ''OK'' (JsonData jita_json)\<rparr>
       30000142 empty_world
     = (Inr (jita_row 10 10), \<lparr>systems = [jita_row 10 10], esi_requests = [30000142]\<rparr>)"
  by (simp add: get_or_fetch_system_def get_system_info_def try_get_system_info_def
      raise_for_status_def extract_fields_def insert_system_def get_system_def
      jita_json_def jita_row_def empty_world_def)

lemma resolve_jita_hit:
  "get_or_fetch_system \<lparr>utcnow = c, upstream = up\<rparr> 30000142
       \<lparr>systems = [jita_row a b], esi_requests = reqs\<rparr>
     = (Inr (jita_row a b), \<lparr>systems = [jita_row a c], esi_requests = reqs\<rparr>)"
  by (simp add: get_or_fetch_system_def get_system_def update_system_timestamp_def
      jita_row_def)

text \<open>
  Claim C5 as stated fails. The store is empty; a first resolution of Jita at clock
  reading 10 inserts the row; the clock is then set back, and the two resolutions that
  follow, at readings 5 and 7, both succeed and return \<open>last_update\<close> 10 and then 5.
\<close>

theorem resolve_twice_last_update_decreases:
  "get_or_fetch_system \<lparr>utcnow = 10, upstream = Response 200 ''OK'' (JsonData jita_json)\<rparr>
       30000142 empty_world
     = (Inr (jita_row 10 10), \<lparr>systems = [jita_row 10 10], esi_requests = [30000142]\<rparr>)
   \<and> get_or_fetch_system \<lparr>utcnow = 5, upstream = timed_out\<rparr> 30000142
       \<lparr>systems = [jita_row 10 10], esi_requests = [30000142]\<rparr>
     = (Inr (jita_row 10 10), \<lparr>systems = [jita_row 10 5], esi_requests = [30000142]\<rparr>)
   \<and> get_or_fetch_system \<lparr>utcnow = 7, upstream = timed_out\<rparr> 30000142
       \<lparr>systems = [jita_row 10 5], esi_requests = [30000142]\<rparr>
     = (Inr (jita_row 10 5), \<lparr>systems = [jita_row 10 7], esi_requests = [30000142]\<rparr>)
   \<and> last_update (jita_row 10 10) = 10 \<and> last_update (jita_row 10 5) = 5
   \<and> \<not> last_update (jita_row 10 10) \<le> last_update (jita_row 10 5)"
  by (simp add: resolve_jita_at_10 resolve_jita_hit) (simp add: jita_row_def)

text \<open>
  Claim C5, amended. When two resolutions of an id in a row both succeed, the two records
  agree in \<open>system_id\<close>, \<open>name\<close> and the three coordinates. If the first of the two
  is a cache miss, their \<open>last_update\<close> are equal. If the table has been filled from
  the empty table by resolutions none of whose clock readings is later than the reading
  of the first of the two (as with a clock that does not run backwards), the
  \<open>last_update\<close> of the second is not earlier than that of the first.
\<close>

theorem resolve_twice_same_record:
  assumes "get_or_fetch_system ev1 sid w = (Inr r1, w1)"
    and "get_or_fetch_system ev2 sid w1 = (Inr r2, w2)"
  shows "system_id r2 = system_id r1 \<and> name r2 = name r1
         \<and> pos_x r2 = pos_x r1 \<and> pos_y r2 = pos_y r1 \<and> pos_z r2 = pos_z r1
         \<and> (get_system (systems w) sid = None \<longrightarrow> last_update r2 = last_update r1)
         \<and> (systems w0 = [] \<and> w = resolve_all ops w0
              \<and> list_all (\<lambda>t. t \<le> utcnow ev1) (clock_readings ops)
              \<longrightarrow> last_update r1 \<le> last_update r2)"
proof -
  note f = resolve_twice_fields [OF assms]
  have fields: "system_id r2 = system_id r1 \<and> name r2 = name r1
         \<and> pos_x r2 = pos_x r1 \<and> pos_y r2 = pos_y r1 \<and> pos_z r2 = pos_z r1"
    using f by auto
  have miss: "get_system (systems w) sid = None \<longrightarrow> last_update r2 = last_update r1"
    using f by auto
  have mono: "last_update r1 \<le> last_update r2"
    if run: "systems w0 = [] \<and> w = resolve_all ops w0
             \<and> list_all (\<lambda>t. t \<le> utcnow ev1) (clock_readings ops)"
  proof -
    have "\<forall>row\<in>set (systems w0). last_update row \<le> utcnow ev1" using run by simp
    moreover have "\<forall>t\<in>set (clock_readings ops). t \<le> utcnow ev1"
      using run by (simp add: list_all_iff)
    ultimately have b: "\<forall>row\<in>set (systems w). last_update row \<le> utcnow ev1"
      using run resolve_all_not_ahead by blast
    from f show ?thesis
    proof
      assume "get_system (systems w) sid = None \<and> r2 = r1"
      then show ?thesis by simp
    next
      assume h: "get_system (systems w) sid = Some r1 \<and> r2 = r1\<lparr>last_update := utcnow ev1\<rparr>"
      then have "get_system (systems w) sid = Some r1" by simp
      then have "r1 \<in> set (systems w)" by (rule get_system_in_table)
      with b have "last_update r1 \<le> utcnow ev1" by blast
      then show ?thesis using h by simp
    qed
  qed
  show ?thesis using fields miss mono by blast
qed

theorem resolve_twice_same_record_witness:
  "resolve_all [(\<lparr>utcnow = 5, upstream = Response 200 ''OK'' (JsonData jita_json)\<rparr>, 30000142)]
       empty_world
     = \<lparr>systems = [jita_row 5 5], esi_requests = [30000142]\<rparr>
   \<and> get_or_fetch_system \<lparr>utcnow = 9, upstream = timed_out\<rparr> 30000142
       \<lparr>systems = [jita_row 5 5], esi_requests = [30000142]\<rparr>
     = (Inr (jita_row 5 5), \<lparr>systems = [jita_row 5 9], esi_requests = [30000142]\<rparr>)
   \<and> get_or_fetch_system \<lparr>utcnow = 12, upstream = timed_out\<rparr> 30000142
       \<lparr>systems = [jita_row 5 9], esi_requests = [30000142]\<rparr>
     = (Inr (jita_row 5 9), \<lparr>systems = [jita_row 5 12], esi_requests = [30000142]\<rparr>)
   \<and> name (jita_row 5 9) = name (jita_row 5 5)
   \<and> last_update (jita_row 5 5) \<le> last_update (jita_row 5 9)"
proof -
  let ?ops = "[(\<lparr>utcnow = 5, upstream = Response 200 ''OK'' (JsonData jita_json)\<rparr>,
                30000142 :: int)]"
  let ?w = "\<lparr>systems = [jita_row 5 5], esi_requests = [30000142]\<rparr>"
  have run: "resolve_all ?ops empty_world = ?w"
    by (simp add: resolve_jita)
  have 1: "get_or_fetch_system \<lparr>utcnow = 9, upstream = timed_out\<rparr> 30000142 ?w
           = (Inr (jita_row 5 5), \<lparr>systems = [jita_row 5 9], esi_requests = [30000142]\<rparr>)"
    by (rule resolve_jita_hit)
  have 2: "get_or_fetch_system \<lparr>utcnow = 12, upstream = timed_out\<rparr> 30000142
             \<lparr>systems = [jita_row 5 9], esi_requests = [30000142]\<rparr>
           = (Inr (jita_row 5 9), \<lparr>systems = [jita_row 5 12], esi_requests = [30000142]\<rparr>)"
    by (rule resolve_jita_hit)
  have e: "systems empty_world = []" by (simp add: empty_world_def)
  have c: "list_all (\<lambda>t. t \<le> utcnow \<lparr>utcnow = 9, upstream = timed_out\<rparr>)
             (clock_readings ?ops)"
    by (simp add: clock_readings_def)
  have 3: "systems empty_world = [] \<and> ?w = resolve_all ?ops empty_world
           \<and> list_all (\<lambda>t. t \<le> utcnow \<lparr>utcnow = 9, upstream = timed_out\<rparr>)
                 (clock_readings ?ops)"
    using e c run [symmetric] by blast
  from resolve_twice_same_record [OF 1 2, of empty_world ?ops] 3
  have "name (jita_row 5 9) = name (jita_row 5 5)
        \<and> last_update (jita_row 5 5) \<le> last_update (jita_row 5 9)"
    by blast
  then show ?thesis using run 1 2 by simp
qed

section \<open>Properties of the client and of the HTTP boundary\<close>

lemma py_in_ESI_fetch: "py_in ''ESI'' (''Failed to fetch system data from ESI: '' @ m)"
proof -
  have "''Failed to fetch system data from ESI: '' @ m
          = ''Failed to fetch system data from '' @ ''ESI'' @ ('': '' @ m)" by simp
  then show ?thesis unfolding py_in_def by (simp only: sublist_appendI)
qed

lemma py_in_ESI_invalid: "py_in ''ESI'' (''Invalid response format from ESI: '' @ m)"
proof -
  have "''Invalid response format from ESI: '' @ m
          = ''Invalid response format from '' @ ''ESI'' @ ('': '' @ m)" by simp
  then show ?thesis unfolding py_in_def by (simp only: sublist_appendI)
qed

lemma endpoint_except_ESI:
  "py_in ''ESI'' m \<Longrightarrow>
   endpoint_except (RuntimeError m)
     = (ErrorBody ''Unable to retrieve system information. Please try again later.'', 502)"
  by (simp add: endpoint_except_def)

lemma endpoint_except_HTTPError:
  "endpoint_except (HTTPError st m) = (ErrorBody ''An unexpected error occurred'', 500)"
  by (simp add: endpoint_except_def)

lemma validate_system_id_range:
  "fst (validate_system_id sid) \<longleftrightarrow> MIN_SYSTEM_ID \<le> sid \<and> sid \<le> MAX_SYSTEM_ID"
  by (auto simp: validate_system_id_def)

text \<open>
  An exception that leaves the first or the second resolution of a request is answered by
  the \<^verbatim>\<open>except\<close> clauses of the endpoint.
\<close>

lemma endpoint_first_raises:
  assumes "MIN_SYSTEM_ID \<le> id1" "id1 \<le> MAX_SYSTEM_ID" "MIN_SYSTEM_ID \<le> id2" "id2 \<le> MAX_SYSTEM_ID"
    and "fst (get_or_fetch_system ev1 id1 w) = Inl e"
  shows "fst (calculate_distance_endpoint ev1 ev2 (Converts id1) (Converts id2) w)
           = endpoint_except e"
  using assms
  by (cases "get_or_fetch_system ev1 id1 w")
     (simp add: calculate_distance_endpoint_def validate_system_id_range)

lemma endpoint_second_raises:
  assumes "MIN_SYSTEM_ID \<le> id1" "id1 \<le> MAX_SYSTEM_ID" "MIN_SYSTEM_ID \<le> id2" "id2 \<le> MAX_SYSTEM_ID"
    and "get_or_fetch_system ev1 id1 w = (Inr r1, w1)"
    and "fst (get_or_fetch_system ev2 id2 w1) = Inl e"
  shows "fst (calculate_distance_endpoint ev1 ev2 (Converts id1) (Converts id2) w)
           = endpoint_except e"
  using assms
  by (cases "get_or_fetch_system ev2 id2 w1")
     (simp add: calculate_distance_endpoint_def validate_system_id_range)

lemma get_or_fetch_system_miss_raises:
  assumes "get_system (systems w) sid = None"
    and "get_system_info sid (upstream ev) = Inl e"
  shows "fst (get_or_fetch_system ev sid w) = Inl e"
  using assms by (simp add: get_or_fetch_system_def)

subsection \<open>Malformed answers\<close>

lemma extract_fields_absent_key:
  "absent_key payload \<Longrightarrow> \<exists>k. extract_fields payload = Inl (KeyError k)"
  by (auto simp: absent_key_def extract_fields_def
      split: json_payload.splits option.splits position_value.splits)

lemma extract_fields_object_expected:
  "object_expected payload \<Longrightarrow> \<exists>m. extract_fields payload = Inl (TypeError m)"
proof -
  have t: "\<exists>m. subscript_non_object v = TypeError m" for v by (cases v) simp_all
  assume "object_expected payload"
  then show ?thesis
    using t
    by (auto simp: object_expected_def extract_fields_def
        split: json_payload.splits option.splits position_value.splits)
qed

lemma extract_fields_complete:
  "\<not> missing_required_field payload \<Longrightarrow> \<exists>d. extract_fields payload = Inr d"
  by (auto simp: missing_required_field_def extract_fields_def
      split: json_payload.splits option.splits position_value.splits)

lemma missing_required_field_cases:
  "missing_required_field payload \<longleftrightarrow> absent_key payload \<or> object_expected payload"
  by (auto simp: missing_required_field_def absent_key_def object_expected_def
      split: json_payload.splits option.splits position_value.splits)

lemma malformed_upstream_cases:
  "malformed_upstream up \<longleftrightarrow> unparseable_or_absent_key up \<or> object_expected_upstream up"
proof (cases up)
  case (GetRaises e)
  then show ?thesis by simp
next
  case (Response st reason js)
  then show ?thesis by (cases js) (auto simp: missing_required_field_cases)
qed

lemma get_system_info_unparseable_or_absent_key:
  assumes "unparseable_or_absent_key up"
  shows "\<exists>m. get_system_info sid up = Inl (RuntimeError m) \<and> py_in ''ESI'' m
             \<and> (prefix ''Invalid response format from ESI: '' m
                  \<or> prefix ''Failed to fetch system data from ESI: '' m)"
proof (cases up)
  case (GetRaises e)
  then show ?thesis using assms by simp
next
  case (Response st reason js)
  show ?thesis
  proof (cases js)
    case (JsonRaises e)
    then have st: "st < 400 \<or> 600 \<le> st" and e: "is_ValueError e"
      using assms Response by auto
    have tr: "try_get_system_info sid up = Inl e"
      using st by (auto simp: try_get_system_info_def raise_for_status_def Response JsonRaises)
    from e show ?thesis
    proof (cases e)
      case (ValueError m)
      then have "get_system_info sid up
                   = Inl (RuntimeError (''Invalid response format from ESI: '' @ m))"
        by (simp add: get_system_info_def tr)
      then show ?thesis using py_in_ESI_invalid by simp
    next
      case (RequestsJSONDecodeError m)
      then have "get_system_info sid up
                   = Inl (RuntimeError (''Failed to fetch system data from ESI: '' @ m))"
        by (simp add: get_system_info_def tr)
      then show ?thesis using py_in_ESI_fetch by simp
    qed simp_all
  next
    case (JsonData payload)
    then have st: "st < 400 \<or> 600 \<le> st" and d: "absent_key payload"
      using assms Response by auto
    from extract_fields_absent_key [OF d] obtain k
      where k: "extract_fields payload = Inl (KeyError k)" ..
    have tr: "try_get_system_info sid up = Inl (KeyError k)"
      using st k by (auto simp: try_get_system_info_def raise_for_status_def Response JsonData)
    have "get_system_info sid up
            = Inl (RuntimeError (''Invalid response format from ESI: '' @ str_exc (KeyError k)))"
      by (simp add: get_system_info_def tr)
    then show ?thesis using py_in_ESI_invalid by simp
  qed
qed

text \<open>
  The TypeError of a subscription matches none of the \<^verbatim>\<open>except\<close> clauses of the
  client, and in the endpoint only the last one.
\<close>

lemma get_system_info_object_expected:
  assumes "object_expected_upstream up"
  shows "\<exists>m. get_system_info sid up = Inl (TypeError m)"
proof -
  obtain st reason payload where up: "up = Response st reason (JsonData payload)"
    and st: "st < 400 \<or> 600 \<le> st" and d: "object_expected payload"
    using assms by (cases up rule: object_expected_upstream.cases) simp_all
  from extract_fields_object_expected [OF d] obtain m
    where m: "extract_fields payload = Inl (TypeError m)" ..
  have "try_get_system_info sid up = Inl (TypeError m)"
    using st m by (auto simp: try_get_system_info_def raise_for_status_def up)
  then have "get_system_info sid up = Inl (TypeError m)"
    by (simp add: get_system_info_def)
  then show ?thesis ..
qed

lemma endpoint_except_TypeError:
  "endpoint_except (TypeError m) = (ErrorBody ''An unexpected error occurred'', 500)"
  by (simp add: endpoint_except_def)

lemma malformed_payload_without_position:
  "unparseable_or_absent_key payload_without_position"
  by (simp add: payload_without_position_def absent_key_def)

lemma malformed_payload_null_position: "object_expected_upstream payload_null_position"
  by (simp add: payload_null_position_def object_expected_def)

lemma ids_in_range:
  "MIN_SYSTEM_ID \<le> 30000142" "30000142 \<le> MAX_SYSTEM_ID"
  "MIN_SYSTEM_ID \<le> 30000144" "30000144 \<le> MAX_SYSTEM_ID"
  by (simp_all add: MIN_SYSTEM_ID_def MAX_SYSTEM_ID_def)

lemma empty_world_miss: "get_system (systems empty_world) sid = None"
  by (simp add: empty_world_def get_system_def)

text \<open>
  Claim C1 as stated fails: a payload without its position is a malformed answer, and the
  request that meets it is answered with 502, not with 500.
\<close>

theorem malformed_upstream_not_500:
  "malformed_upstream payload_without_position
   \<and> status (calculate_distance_endpoint
               \<lparr>utcnow = 1, upstream = payload_without_position\<rparr>
               \<lparr>utcnow = 2, upstream = payload_without_position\<rparr>
               (Converts 30000142) (Converts 30000144) empty_world) = 502"
proof -
  have mal: "malformed_upstream payload_without_position"
    using malformed_payload_without_position by (simp add: malformed_upstream_cases)
  obtain m where m: "get_system_info 30000142 payload_without_position = Inl (RuntimeError m)"
    and esi: "py_in ''ESI'' m"
    using get_system_info_unparseable_or_absent_key [OF malformed_payload_without_position]
    by blast
  have "fst (get_or_fetch_system \<lparr>utcnow = 1, upstream = payload_without_position\<rparr>
               30000142 empty_world) = Inl (RuntimeError m)"
    using m by (intro get_or_fetch_system_miss_raises empty_world_miss) simp
  from endpoint_first_raises [OF ids_in_range this]
  show ?thesis
    using esi mal by (simp add: status_def endpoint_except_ESI)
qed

text \<open>
  Claim C1, amended. For every resolution that goes to the network and gets a malformed
  answer (a response without an HTTP error status whose payload does not parse or lacks
  a required field), one of two things happens, whether the resolution is the first or
  the second of the request.

  When the payload does not parse, or the first field found lacking is a key absent from
  an object, the client raises a RuntimeError whose text names ESI (``Invalid response
  format from ESI: ...'', or ``Failed to fetch system data from ESI: ...'' when the
  decoding error is the one of the \<^verbatim>\<open>requests\<close> library), the resolution raises it
  unchanged, and the endpoint answers with status 502.

  When the payload, or its position, is not an object, the subscription raises
  TypeError, which passes through the client and the resolution as it is, and the last
  \<^verbatim>\<open>except\<close> clause of the endpoint answers with status 500.
\<close>

theorem malformed_upstream_statuses:
  assumes "malformed_upstream (upstream ev)"
    and "get_system (systems w) sid = None"
    and "MIN_SYSTEM_ID \<le> sid" and "sid \<le> MAX_SYSTEM_ID"
    and "MIN_SYSTEM_ID \<le> other" and "other \<le> MAX_SYSTEM_ID"
  shows "(unparseable_or_absent_key (upstream ev) \<or> object_expected_upstream (upstream ev))
         \<and> (unparseable_or_absent_key (upstream ev) \<longrightarrow>
              (\<exists>m. get_system_info sid (upstream ev) = Inl (RuntimeError m)
                  \<and> fst (get_or_fetch_system ev sid w) = Inl (RuntimeError m)
                  \<and> (prefix ''Invalid response format from ESI: '' m
                       \<or> prefix ''Failed to fetch system data from ESI: '' m))
              \<and> status (calculate_distance_endpoint ev ev2 (Converts sid) (Converts other) w)
                  = 502
              \<and> (\<forall>ev1 w0 r1. get_or_fetch_system ev1 other w0 = (Inr r1, w) \<longrightarrow>
                    status (calculate_distance_endpoint ev1 ev (Converts other) (Converts sid)
                              w0) = 502))
         \<and> (object_expected_upstream (upstream ev) \<longrightarrow>
              (\<exists>m. get_system_info sid (upstream ev) = Inl (TypeError m)
                  \<and> fst (get_or_fetch_system ev sid w) = Inl (TypeError m))
              \<and> status (calculate_distance_endpoint ev ev2 (Converts sid) (Converts other) w)
                  = 500
              \<and> (\<forall>ev1 w0 r1. get_or_fetch_system ev1 other w0 = (Inr r1, w) \<longrightarrow>
                    status (calculate_distance_endpoint ev1 ev (Converts other) (Converts sid)
                              w0) = 500))"
proof (intro conjI impI)
  show "unparseable_or_absent_key (upstream ev) \<or> object_expected_upstream (upstream ev)"
    using assms(1) by (simp add: malformed_upstream_cases)
next
  assume u: "unparseable_or_absent_key (upstream ev)"
  obtain m where m: "get_system_info sid (upstream ev) = Inl (RuntimeError m)"
    and esi: "py_in ''ESI'' m"
    and pre: "prefix ''Invalid response format from ESI: '' m
              \<or> prefix ''Failed to fetch system data from ESI: '' m"
    using get_system_info_unparseable_or_absent_key [OF u] by blast
  have r: "fst (get_or_fetch_system ev sid w) = Inl (RuntimeError m)"
    using assms(2) m by (rule get_or_fetch_system_miss_raises)
  have ex: "endpoint_except (RuntimeError m)
              = (ErrorBody ''Unable to retrieve system information. Please try again later.'',
                 502)"
    using esi by (rule endpoint_except_ESI)
  show "\<exists>m. get_system_info sid (upstream ev) = Inl (RuntimeError m)
           \<and> fst (get_or_fetch_system ev sid w) = Inl (RuntimeError m)
           \<and> (prefix ''Invalid response format from ESI: '' m
                \<or> prefix ''Failed to fetch system data from ESI: '' m)"
    using m r pre by blast
  show "status (calculate_distance_endpoint ev ev2 (Converts sid) (Converts other) w) = 502"
    by (simp only: status_def endpoint_first_raises [OF assms(3,4,5,6) r] ex snd_conv)
  show "\<forall>ev1 w0 r1. get_or_fetch_system ev1 other w0 = (Inr r1, w) \<longrightarrow>
          status (calculate_distance_endpoint ev1 ev (Converts other) (Converts sid) w0) = 502"
  proof (intro allI impI)
    fix ev1 w0 r1
    assume "get_or_fetch_system ev1 other w0 = (Inr r1, w)"
    then show
      "status (calculate_distance_endpoint ev1 ev (Converts other) (Converts sid) w0) = 502"
      by (simp only: status_def endpoint_second_raises [OF assms(5,6,3,4) _ r] ex snd_conv)
  qed
next
  assume u: "object_expected_upstream (upstream ev)"
  obtain m where m: "get_system_info sid (upstream ev) = Inl (TypeError m)"
    using get_system_info_object_expected [OF u] by blast
  have r: "fst (get_or_fetch_system ev sid w) = Inl (TypeError m)"
    using assms(2) m by (rule get_or_fetch_system_miss_raises)
  show "\<exists>m. get_system_info sid (upstream ev) = Inl (TypeError m)
           \<and> fst (get_or_fetch_system ev sid w) = Inl (TypeError m)"
    using m r by blast
  show "status (calculate_distance_endpoint ev ev2 (Converts sid) (Converts other) w) = 500"
    by (simp only: status_def endpoint_first_raises [OF assms(3,4,5,6) r]
        endpoint_except_TypeError snd_conv)
  show "\<forall>ev1 w0 r1. get_or_fetch_system ev1 other w0 = (Inr r1, w) \<longrightarrow>
          status (calculate_distance_endpoint ev1 ev (Converts other) (Converts sid) w0) = 500"
  proof (intro allI impI)
    fix ev1 w0 r1
    assume "get_or_fetch_system ev1 other w0 = (Inr r1, w)"
    then show
      "status (calculate_distance_endpoint ev1 ev (Converts other) (Converts sid) w0) = 500"
      by (simp only: status_def endpoint_second_raises [OF assms(5,6,3,4) _ r]
          endpoint_except_TypeError snd_conv)
  qed
qed

theorem malformed_upstream_statuses_witness:
  "malformed_upstream payload_without_position
   \<and> get_system (systems empty_world) 30000142 = None
   \<and> status (calculate_distance_endpoint
               \<lparr>utcnow = 1, upstream = payload_without_position\<rparr>
               \<lparr>utcnow = 2, upstream = GetRaises (Timeout [])\<rparr>
               (Converts 30000142) (Converts 30000144) empty_world) = 502
   \<and> malformed_upstream payload_null_position
   \<and> status (calculate_distance_endpoint
               \<lparr>utcnow = 1, upstream = payload_null_position\<rparr>
               \<lparr>utcnow = 2, upstream = GetRaises (Timeout [])\<rparr>
               (Converts 30000142) (Converts 30000144) empty_world) = 500"
proof -
  have a: "malformed_upstream payload_without_position"
    using malformed_payload_without_position by (simp add: malformed_upstream_cases)
  have b: "malformed_upstream payload_null_position"
    using malformed_payload_null_position by (simp add: malformed_upstream_cases)
  have 1: "malformed_upstream (upstream \<lparr>utcnow = 1, upstream = payload_without_position\<rparr>)"
    using a by simp
  have 2: "malformed_upstream (upstream \<lparr>utcnow = 1, upstream = payload_null_position\<rparr>)"
    using b by simp
  have s1: "status (calculate_distance_endpoint
               \<lparr>utcnow = 1, upstream = payload_without_position\<rparr>
               \<lparr>utcnow = 2, upstream = GetRaises (Timeout [])\<rparr>
               (Converts 30000142) (Converts 30000144) empty_world) = 502"
    using malformed_upstream_statuses [OF 1 empty_world_miss ids_in_range]
      malformed_payload_without_position
    by simp
  have s2: "status (calculate_distance_endpoint
               \<lparr>utcnow = 1, upstream = payload_null_position\<rparr>
               \<lparr>utcnow = 2, upstream = GetRaises (Timeout [])\<rparr>
               (Converts 30000142) (Converts 30000144) empty_world) = 500"
    using malformed_upstream_statuses [OF 2 empty_world_miss ids_in_range]
      malformed_payload_null_position
    by simp
  show ?thesis using a b s1 s2 empty_world_miss by simp
qed

subsection \<open>Unreachable service and HTTP error statuses\<close>

lemma get_system_info_unreachable:
  assumes "unreachable_upstream up"
  shows "\<exists>m. get_system_info sid up
               = Inl (RuntimeError (''Failed to fetch system data from ESI: '' @ m))"
proof -
  have "(\<exists>m. up = GetRaises (Timeout m)) \<or> (\<exists>m. up = GetRaises (ConnectionError m))"
    using assms by (cases up rule: unreachable_upstream.cases) simp_all
  then show ?thesis
    by (auto simp: get_system_info_def try_get_system_info_def)
qed

lemma raise_for_status_error:
  assumes "400 \<le> st" and "st < 600"
  shows "\<exists>m. raise_for_status url st reason = Inl (HTTPError st m)"
  using assms by (cases "st < 500") (simp_all add: raise_for_status_def)

lemma raise_for_status_ok:
  "st < 400 \<or> 600 \<le> st \<Longrightarrow> raise_for_status url st reason = Inr ()"
  by (auto simp: raise_for_status_def)

lemma get_system_info_error_status:
  assumes "error_status_upstream up"
  shows "\<exists>st m. get_system_info sid up = Inl (HTTPError st m)
                \<and> 400 \<le> st \<and> st < 600 \<and> st \<noteq> 404"
proof (cases up)
  case (GetRaises e)
  then show ?thesis using assms by simp
next
  case (Response st reason js)
  then have st: "400 \<le> st" "st < 600" "st \<noteq> 404" using assms by simp_all
  from raise_for_status_error [OF st(1,2)] obtain m where
    "raise_for_status (ESI_BASE_URL @ ''/universe/systems/'' @ str_int sid @ ''/'') st reason
       = Inl (HTTPError st m)"
    by blast
  then have "get_system_info sid up = Inl (HTTPError st m)"
    using st by (simp add: get_system_info_def try_get_system_info_def Response)
  then show ?thesis using st by blast
qed

text \<open>
  Claim C2 as stated fails: a response with status 500 is a non-2xx status other than
  404, and the request that meets it is answered with 500, not with 502.
\<close>

theorem error_status_not_502:
  "error_status_upstream server_error
   \<and> status (calculate_distance_endpoint
               \<lparr>utcnow = 1, upstream = server_error\<rparr>
               \<lparr>utcnow = 2, upstream = server_error\<rparr>
               (Converts 30000142) (Converts 30000144) empty_world) = 500"
proof -
  have e: "error_status_upstream server_error" by (simp add: server_error_def)
  obtain st m where m: "get_system_info 30000142 server_error = Inl (HTTPError st m)"
    using get_system_info_error_status [OF e] by blast
  have "fst (get_or_fetch_system \<lparr>utcnow = 1, upstream = server_error\<rparr>
               30000142 empty_world) = Inl (HTTPError st m)"
    using m by (intro get_or_fetch_system_miss_raises empty_world_miss) simp
  from endpoint_first_raises [OF ids_in_range this]
  show ?thesis using e by (simp add: status_def endpoint_except_HTTPError)
qed

text \<open>
  Claim C2, amended. For every resolution that goes to the network: when the request
  times out or the connection fails, the client raises the RuntimeError ``Failed to
  fetch system data from ESI: ...'', the resolution raises it unchanged and the endpoint
  answers the request with status 502; when the response carries an HTTP error status
  (400 to 599) other than 404, the client raises the HTTPError of the library again as
  it is, the resolution lets it through, and the last \<^verbatim>\<open>except\<close> clause of the
  endpoint answers the request with status 500. Both hold whether the resolution is the
  first or the second of the request.
\<close>

theorem unreachable_502_error_status_500:
  assumes "get_system (systems w) sid = None"
    and "MIN_SYSTEM_ID \<le> sid" and "sid \<le> MAX_SYSTEM_ID"
    and "MIN_SYSTEM_ID \<le> other" and "other \<le> MAX_SYSTEM_ID"
  shows "(unreachable_upstream (upstream ev) \<longrightarrow>
            (\<exists>m. get_system_info sid (upstream ev)
                    = Inl (RuntimeError (''Failed to fetch system data from ESI: '' @ m))
                \<and> fst (get_or_fetch_system ev sid w)
                    = Inl (RuntimeError (''Failed to fetch system data from ESI: '' @ m)))
            \<and> status (calculate_distance_endpoint ev ev2 (Converts sid) (Converts other) w) = 502
            \<and> (\<forall>ev1 w0 r1. get_or_fetch_system ev1 other w0 = (Inr r1, w) \<longrightarrow>
                  status (calculate_distance_endpoint ev1 ev (Converts other) (Converts sid) w0)
                    = 502))
         \<and> (error_status_upstream (upstream ev) \<longrightarrow>
            (\<exists>st m. get_system_info sid (upstream ev) = Inl (HTTPError st m)
                \<and> fst (get_or_fetch_system ev sid w) = Inl (HTTPError st m))
            \<and> status (calculate_distance_endpoint ev ev2 (Converts sid) (Converts other) w) = 500
            \<and> (\<forall>ev1 w0 r1. get_or_fetch_system ev1 other w0 = (Inr r1, w) \<longrightarrow>
                  status (calculate_distance_endpoint ev1 ev (Converts other) (Converts sid) w0)
                    = 500))"
proof (intro conjI impI)
  assume u: "unreachable_upstream (upstream ev)"
  obtain m where m: "get_system_info sid (upstream ev)
                       = Inl (RuntimeError (''Failed to fetch system data from ESI: '' @ m))"
    using get_system_info_unreachable [OF u] by blast
  have r: "fst (get_or_fetch_system ev sid w)
             = Inl (RuntimeError (''Failed to fetch system data from ESI: '' @ m))"
    using assms(1) m by (rule get_or_fetch_system_miss_raises)
  show "\<exists>m. get_system_info sid (upstream ev)
               = Inl (RuntimeError (''Failed to fetch system data from ESI: '' @ m))
           \<and> fst (get_or_fetch_system ev sid w)
               = Inl (RuntimeError (''Failed to fetch system data from ESI: '' @ m))"
    using m r by blast
  have ex: "endpoint_except (RuntimeError (''Failed to fetch system data from ESI: '' @ m))
              = (ErrorBody ''Unable to retrieve system information. Please try again later.'',
                 502)"
    by (rule endpoint_except_ESI [OF py_in_ESI_fetch])
  show "status (calculate_distance_endpoint ev ev2 (Converts sid) (Converts other) w) = 502"
    by (simp only: status_def endpoint_first_raises [OF assms(2,3,4,5) r] ex snd_conv)
  show "\<forall>ev1 w0 r1. get_or_fetch_system ev1 other w0 = (Inr r1, w) \<longrightarrow>
          status (calculate_distance_endpoint ev1 ev (Converts other) (Converts sid) w0) = 502"
  proof (intro allI impI)
    fix ev1 w0 r1
    assume "get_or_fetch_system ev1 other w0 = (Inr r1, w)"
    then show
      "status (calculate_distance_endpoint ev1 ev (Converts other) (Converts sid) w0) = 502"
      by (simp only: status_def endpoint_second_raises [OF assms(4,5,2,3) _ r] ex snd_conv)
  qed
next
  assume u: "error_status_upstream (upstream ev)"
  obtain st m where m: "get_system_info sid (upstream ev) = Inl (HTTPError st m)"
    using get_system_info_error_status [OF u] by blast
  have r: "fst (get_or_fetch_system ev sid w) = Inl (HTTPError st m)"
    using assms(1) m by (rule get_or_fetch_system_miss_raises)
  show "\<exists>st m. get_system_info sid (upstream ev) = Inl (HTTPError st m)
           \<and> fst (get_or_fetch_system ev sid w) = Inl (HTTPError st m)"
    using m r by blast
  show "status (calculate_distance_endpoint ev ev2 (Converts sid) (Converts other) w) = 500"
    using endpoint_first_raises [OF assms(2,3,4,5) r]
    by (simp add: status_def endpoint_except_HTTPError)
  show "\<forall>ev1 w0 r1. get_or_fetch_system ev1 other w0 = (Inr r1, w) \<longrightarrow>
          status (calculate_distance_endpoint ev1 ev (Converts other) (Converts sid) w0) = 500"
  proof (intro allI impI)
    fix ev1 w0 r1
    assume "get_or_fetch_system ev1 other w0 = (Inr r1, w)"
    from endpoint_second_raises [OF assms(4,5,2,3) this r]
    show "status (calculate_distance_endpoint ev1 ev (Converts other) (Converts sid) w0) = 500"
      by (simp add: status_def endpoint_except_HTTPError)
  qed
qed

theorem unreachable_502_error_status_500_witness:
  "unreachable_upstream timed_out
   \<and> status (calculate_distance_endpoint
               \<lparr>utcnow = 1, upstream = timed_out\<rparr> \<lparr>utcnow = 2, upstream = timed_out\<rparr>
               (Converts 30000142) (Converts 30000144) empty_world) = 502
   \<and> error_status_upstream server_error
   \<and> status (calculate_distance_endpoint
               \<lparr>utcnow = 5, upstream = Response 200 ''OK'' (JsonData jita_json)\<rparr>
               \<lparr>utcnow = 6, upstream = server_error\<rparr>
               (Converts 30000142) (Converts 30000144) empty_world) = 500"
proof -
  have u: "unreachable_upstream (upstream \<lparr>utcnow = 1, upstream = timed_out\<rparr>)"
    by (simp add: timed_out_def)
  have e: "error_status_upstream (upstream \<lparr>utcnow = 6, upstream = server_error\<rparr>)"
    by (simp add: server_error_def)
  have miss: "get_system
                (systems \<lparr>systems = [jita_row 5 5], esi_requests = [30000142]\<rparr>) 30000144 = None"
    by (simp add: get_system_def jita_row_def)
  have 1: "status (calculate_distance_endpoint
               \<lparr>utcnow = 1, upstream = timed_out\<rparr> \<lparr>utcnow = 2, upstream = timed_out\<rparr>
               (Converts 30000142) (Converts 30000144) empty_world) = 502"
    using unreachable_502_error_status_500 [OF empty_world_miss ids_in_range] u by blast
  have 2: "status (calculate_distance_endpoint
               \<lparr>utcnow = 5, upstream = Response 200 ''OK'' (JsonData jita_json)\<rparr>
               \<lparr>utcnow = 6, upstream = server_error\<rparr>
               (Converts 30000142) (Converts 30000144) empty_world) = 500"
    using unreachable_502_error_status_500 [OF miss ids_in_range(3,4,1,2)] e resolve_jita
    by blast
  show ?thesis using u e 1 2 by simp
qed

end
